theory Spec2Isabelle
  imports Complex_Main "HOL-Library.Monad_Syntax"
begin

section \<open>Data model\<close>

text \<open>
  The game keeps its numbers in JavaScript doubles. The integer-valued fields (score, wave,
  health, combo, kills, damage, the numeric answers) are modelled as \<open>int\<close>; times,
  positions and the values returned by \<open>Math.random()\<close> are modelled as \<open>real\<close>,
  that is, without rounding. Rendering, audio, DOM and ad collaborators are left out; the
  enhanced build is \<open>part_001\<close>, the basic build is \<open>part_000\<close> (suffix \<open>_basic\<close>).
\<close>

datatype part = Head | Chest | Knee

datatype answer = Num int | Str string

datatype robot_type = Normal | Fast | Heavy

record vec3 =
  vx :: real
  vy :: real
  vz :: real

record answer_slots =
  head :: answer
  chest :: answer
  knee :: answer

record robot =
  rtype :: robot_type
  baseSpeed :: real
  damage :: int
  scale :: real
  position :: vec3
  speed :: real
  alive :: bool
  dying :: bool
  dyingTimer :: real
  walkTime :: real
  attackCooldown :: real
  question :: string
  correctAnswer :: answer
  answers :: answer_slots

record pickup =
  pk_position :: vec3
  pk_scale :: real
  pk_time :: real
  collected :: bool

record particle =
  p_life :: real
  p_decay :: real

record bullet =
  b_life :: real

record gameState =
  score :: int
  wave :: int
  health :: int
  maxHealth :: int
  combo :: int
  kills :: int
  isRunning :: bool
  isPaused :: bool
  mode :: string

record world =
  gs :: gameState
  robots :: "robot list"
  pickups :: "pickup list"
  particles :: "particle list"
  bullets :: "bullet list"
  spawnTimer :: real
  spawnInterval :: real
  camera :: vec3
  yaw :: real
  pitch :: real
  playerY :: real
  velocityY :: real
  isGrounded :: bool
  isMoving :: bool
  headBobTime :: real
  currentBobOffset :: real
  currentSideOffset :: real
  isMobile :: bool

section \<open>Shooting\<close>

text \<open>
  \<open>Robot.checkHit\<close>. The ray cast itself is the rendering library's; its outcome for one
  robot is the list of intersected objects in hit order, each resolved to the
  \<open>userData.part\<close> tag found by walking up its parents (\<open>None\<close> when no ancestor has
  one). No intersection gives \<open>null\<close>; an intersection without any tag defaults to chest.
\<close>

fun slot :: "answer_slots \<Rightarrow> part \<Rightarrow> answer" where
  "slot s Head = head s"
| "slot s Chest = chest s"
| "slot s Knee = knee s"

definition checkHit :: "robot \<Rightarrow> part option list \<Rightarrow> (part \<times> answer) option" where
  "checkHit r intersects =
     (if intersects = [] then None
      else (case List.find (\<lambda>t. t \<noteq> None) intersects of
              Some (Some p) \<Rightarrow> Some (p, slot (answers r) p)
            | _ \<Rightarrow> Some (Chest, chest (answers r))))"

text \<open>
  One fire event: the ray cast outcome per robot (by index in the active list), the value of
  \<open>Math.random()\<close> read for the pickup drop, the one read by the \<open>HealthPickup\<close>
  constructor, and the ones read for the decay of the explosion particles.
\<close>

record fire =
  raycast :: "nat \<Rightarrow> part option list"
  dropRoll :: real
  pickupRoll :: real
  decayRoll :: "nat \<Rightarrow> real"

text \<open>The \<open>for (const robot of robots)\<close> loop up to its \<open>return\<close>: the index of the
  first robot that is not dying and is hit, with the hit.\<close>

fun firstHit :: "(nat \<Rightarrow> part option list) \<Rightarrow> nat \<Rightarrow> robot list \<Rightarrow> (nat \<times> part \<times> answer) option" where
  "firstHit ray i [] = None"
| "firstHit ray i (r # rs) =
     (if dying r then firstHit ray (Suc i) rs
      else (case checkHit r (ray i) of
              Some (p, a) \<Rightarrow> Some (i, p, a)
            | None \<Rightarrow> firstHit ray (Suc i) rs))"

definition createExplosion :: "bool \<Rightarrow> nat \<Rightarrow> (nat \<Rightarrow> real) \<Rightarrow> particle list" where
  "createExplosion mobile n decay =
     map (\<lambda>k. \<lparr>p_life = 1, p_decay = 1.5 + decay k\<rparr>) [0 ..< (if mobile then n div 2 else n)]"

definition HealthPickup :: "vec3 \<Rightarrow> real \<Rightarrow> pickup" where
  "HealthPickup p roll =
     \<lparr>pk_position = p\<lparr>vy := 1.5\<rparr>, pk_scale = 0, pk_time = roll * 100, collected = False\<rparr>"

text \<open>\<open>shouldShowWaveAd\<close> of \<open>adManager.js\<close>, with \<open>waveAdInterval = 3\<close>.\<close>

definition shouldShowWaveAd :: "int \<Rightarrow> bool" where
  "shouldShowWaveAd waveNumber \<longleftrightarrow> waveNumber > 1 \<and> waveNumber mod 3 = 0"

text \<open>The body of the loop of \<open>onShoot\<close> (enhanced build) once robot \<open>i\<close> is hit with
  bound answer \<open>a\<close>.\<close>

definition waveAdvance :: "world \<Rightarrow> world" where
  "waveAdvance w =
     (let g1 = (gs w)\<lparr>wave := wave (gs w) + 1\<rparr>;
          g2 = g1\<lparr>health := min (maxHealth g1) (health g1 + 20)\<rparr>;
          w2 = w\<lparr>gs := g2, spawnInterval := max 0.6 (spawnInterval w - 0.2)\<rparr>
      in if shouldShowWaveAd (wave g2) then w2\<lparr>gs := g2\<lparr>isPaused := True\<rparr>\<rparr> else w2)"

definition resolveHit :: "world \<Rightarrow> fire \<Rightarrow> nat \<Rightarrow> answer \<Rightarrow> world" where
  "resolveHit w f i a =
     (let r = robots w ! i;
          w1 = w\<lparr>bullets := bullets w @ [\<lparr>b_life = 0.2\<rparr>]\<rparr>
      in if a = correctAnswer r then
           (let g = gs w1;
                points = 100 * combo g;
                g' = g\<lparr>score := score g + points, kills := kills g + 1,
                        combo := min (combo g + 1) 10\<rparr>;
                w2 = w1\<lparr>robots := (robots w1)[i := r\<lparr>dying := True\<rparr>], gs := g',
                         particles := particles w1 @ createExplosion (isMobile w1) 40 (decayRoll f)\<rparr>;
                w3 = (if dropRoll f < 0.3
                      then w2\<lparr>pickups := pickups w2 @ [HealthPickup (position r) (pickupRoll f)]\<rparr>
                      else w2)
            in if kills (gs w3) mod 5 = 0 then waveAdvance w3 else w3)
         else
           w1\<lparr>gs := (gs w1)\<lparr>combo := 1\<rparr>,
              particles := particles w1 @ createExplosion (isMobile w1) 15 (decayRoll f)\<rparr>)"

definition onShoot :: "world \<Rightarrow> fire \<Rightarrow> world" where
  "onShoot w f =
     (if \<not> isRunning (gs w) \<or> isPaused (gs w) then w
      else (case firstHit (raycast f) 0 (robots w) of
              None \<Rightarrow> w
            | Some (i, p, a) \<Rightarrow> resolveHit w f i a))"

text \<open>A fire event that hits the right zone, and one that hits a wrong zone.\<close>

definition hitCorrect :: "world \<Rightarrow> fire \<Rightarrow> bool" where
  "hitCorrect w f \<longleftrightarrow>
     isRunning (gs w) \<and> \<not> isPaused (gs w) \<and>
     (case firstHit (raycast f) 0 (robots w) of
        None \<Rightarrow> False
      | Some (i, p, a) \<Rightarrow> a = correctAnswer (robots w ! i))"

definition hitWrong :: "world \<Rightarrow> fire \<Rightarrow> bool" where
  "hitWrong w f \<longleftrightarrow>
     isRunning (gs w) \<and> \<not> isPaused (gs w) \<and>
     (case firstHit (raycast f) 0 (robots w) of
        None \<Rightarrow> False
      | Some (i, p, a) \<Rightarrow> a \<noteq> correctAnswer (robots w ! i))"

definition hitIndex :: "world \<Rightarrow> fire \<Rightarrow> nat option" where
  "hitIndex w f = map_option fst (firstHit (raycast f) 0 (robots w))"

section \<open>Random numbers\<close>

text \<open>
  \<open>Math.random()\<close> returns a number in \<open>[0, 1)\<close>. A function that calls it reads the
  returned numbers, in call order, from a finite list; a list that is used up, or that
  holds a number outside \<open>[0, 1)\<close>, gives \<open>None\<close> (no run of the program corresponds to
  it).
\<close>

fun random :: "real list \<Rightarrow> (real \<times> real list) option" where
  "random [] = None"
| "random (r # rs) = (if 0 \<le> r \<and> r < 1 then Some (r, rs) else None)"

text \<open>\<open>Math.floor(Math.random() * n)\<close> for the roll \<open>r\<close>.\<close>

definition randInt :: "real \<Rightarrow> int \<Rightarrow> int" where
  "randInt r n = \<lfloor>r * real_of_int n\<rfloor>"

section \<open>Question generators\<close>

datatype operation = Plus | Minus | Times | Divide | Square

fun operation_text :: "operation \<Rightarrow> string" where
  "operation_text Plus = ''+''"
| "operation_text Minus = ''-''"
| "operation_text Times = [CHR 0xD7]"
| "operation_text Divide = [CHR 0xF7]"
| "operation_text Square = [CHR 0xB2]"

text \<open>Decimal text of a number, as a template literal prints an integer.\<close>

function show_nat :: "nat \<Rightarrow> string" where
  "show_nat n = (if n < 10 then [''0123456789'' ! n] else show_nat (n div 10) @ [''0123456789'' ! (n mod 10)])"
  by pat_completeness auto
termination
  by (relation "measure id") auto

definition show_int :: "int \<Rightarrow> string" where
  "show_int i = (if i < 0 then CHR ''-'' # show_nat (nat (- i)) else show_nat (nat i))"

text \<open>The result of a generator: the fields it writes into the robot and what it returns.\<close>

record generated =
  g_question :: string
  g_answer :: answer
  g_wrongAnswers :: "answer list"

text \<open>The \<open>while (wrongAnswers.length < 2)\<close> loop of \<open>MathGenerator.generate\<close>. The second
  roll is read only when the offset is zero.\<close>

fun wrongLoop :: "int \<Rightarrow> int list \<Rightarrow> real list \<Rightarrow> (int list \<times> real list) option" where
  "wrongLoop answer wrongAnswers rs =
     (if length wrongAnswers < 2 then
        (case rs of
           [] \<Rightarrow> None
         | r # rs1 \<Rightarrow>
             if 0 \<le> r \<and> r < 1 then
               (let offset = randInt r 10 - 5 in
                if offset = 0 then
                  (case rs1 of
                     [] \<Rightarrow> None
                   | s # rs2 \<Rightarrow>
                       if 0 \<le> s \<and> s < 1 then
                         (let wrong = answer + (if s > 0.5 then 1 else - 1) in
                          if wrong \<noteq> answer \<and> wrong > 0 \<and> wrong \<notin> set wrongAnswers
                          then wrongLoop answer (wrongAnswers @ [wrong]) rs2
                          else wrongLoop answer wrongAnswers rs2)
                       else None)
                else
                  (let wrong = answer + offset in
                   if wrong \<noteq> answer \<and> wrong > 0 \<and> wrong \<notin> set wrongAnswers
                   then wrongLoop answer (wrongAnswers @ [wrong]) rs1
                   else wrongLoop answer wrongAnswers rs1))
             else None)
      else Some (wrongAnswers, rs))"

declare wrongLoop.simps [simp del]

definition math_operations :: "int \<Rightarrow> operation list" where
  "math_operations wv =
     (if wv \<ge> 10 then [Plus, Minus, Times, Divide, Square]
      else if wv \<ge> 6 then [Plus, Minus, Times, Divide]
      else if wv \<ge> 3 then [Plus, Minus, Times]
      else if wv \<ge> 2 then [Plus, Minus]
      else [Plus])"

definition math_maxNum :: "int \<Rightarrow> int" where
  "math_maxNum wv =
     (if wv \<ge> 10 then 100 else if wv \<ge> 6 then 50 else if wv \<ge> 3 then 30
      else if wv \<ge> 2 then 20 else 10)"

text \<open>The \<open>switch (operation)\<close>: the operands and the answer.\<close>

definition math_operands :: "operation \<Rightarrow> int \<Rightarrow> real list \<Rightarrow> ((int \<times> int \<times> int) \<times> real list) option" where
  "math_operands operation maxNum rs =
     (case operation of
        Plus \<Rightarrow> do {
          (r1, rs1) \<leftarrow> random rs;
          (r2, rs2) \<leftarrow> random rs1;
          let a = randInt r1 maxNum + 1;
          let b = randInt r2 maxNum + 1;
          Some ((a, b, a + b), rs2) }
      | Minus \<Rightarrow> do {
          (r1, rs1) \<leftarrow> random rs;
          (r2, rs2) \<leftarrow> random rs1;
          let a = randInt r1 maxNum + 10;
          let b = randInt r2 a;
          Some ((a, b, a - b), rs2) }
      | Times \<Rightarrow> do {
          (r1, rs1) \<leftarrow> random rs;
          (r2, rs2) \<leftarrow> random rs1;
          let multMax = min 15 \<lceil>real_of_int maxNum / 2\<rceil>;
          let a = randInt r1 multMax + 2;
          let b = randInt r2 10 + 2;
          Some ((a, b, a * b), rs2) }
      | Divide \<Rightarrow> do {
          (r1, rs1) \<leftarrow> random rs;
          (r2, rs2) \<leftarrow> random rs1;
          let b = randInt r1 12 + 2;
          let answer = randInt r2 12 + 2;
          Some ((b * answer, b, answer), rs2) }
      | Square \<Rightarrow> do {
          (r1, rs1) \<leftarrow> random rs;
          let a = randInt r1 15 + 2;
          Some ((a, 2, a * a), rs1) })"

definition MathGenerator_generate :: "int \<Rightarrow> real list \<Rightarrow> (generated \<times> real list) option" where
  "MathGenerator_generate wv rs = do {
     let operations = math_operations wv;
     let maxNum = math_maxNum wv;
     (r0, rs0) \<leftarrow> random rs;
     let operation = operations ! nat (randInt r0 (int (length operations)));
     ((a, b, answer), rs1) \<leftarrow> math_operands operation maxNum rs0;
     (wrongAnswers, rs2) \<leftarrow> wrongLoop answer [] rs1;
     let q = (if operation = Square then show_int a @ operation_text Square @ '' = ?''
              else show_int a @ '' '' @ operation_text operation @ '' '' @ show_int b @ '' = ?'');
     Some (\<lparr>g_question = q, g_answer = Num answer, g_wrongAnswers = map Num wrongAnswers\<rparr>, rs2) }"

text \<open>One entry \<open>{ q, a, w }\<close> of a question pool.\<close>

datatype qData = qData (qd_q: string) (qd_a: string) (qd_w: "string list")

definition Quiz_easy :: "qData list" where
  "Quiz_easy =
    [qData ''Capital of France?'' ''Paris'' [''London'', ''Berlin''],
     qData ''H2O is?'' ''Water'' [''Iron'', ''Gold''],
     qData ''Red Planet?'' ''Mars'' [''Venus'', ''Jupiter''],
     qData ''Largest Ocean?'' ''Pacific'' [''Atlantic'', ''Indian''],
     qData ''Fastest Animal?'' ''Cheetah'' [''Lion'', ''Horse''],
     qData ''Is the sun a star?'' ''Yes'' [''No'', ''Maybe''],
     qData ''King of Jungle?'' ''Lion'' [''Tiger'', ''Bear''],
     qData ''Color of Emerald?'' ''Green'' [''Red'', ''Blue''],
     qData ''Opposite of Cold?'' ''Hot'' [''Warm'', ''Cool''],
     qData ''Freezing point of water?'' (''0'' @ [CHR 0xB0] @ ''C'') [''-10'' @ [CHR 0xB0] @ ''C'', ''10'' @ [CHR 0xB0] @ ''C''],
     qData ''Color of banana?'' ''Yellow'' [''Green'', ''Red''],
     qData ''Bat is a bird?'' ''No'' [''Yes'', ''Maybe''],
     qData ''A shape with 3 sides?'' ''Triangle'' [''Square'', ''Circle''],
     qData ''Ice is?'' ''Frozen Water'' [''Gas'', ''Steam''],
     qData ''Number of fingers?'' ''5'' [''4'', ''6'']]"

definition Quiz_medium :: "qData list" where
  "Quiz_medium =
    [qData ''Capital of Japan?'' ''Tokyo'' [''Kyoto'', ''Osaka''],
     qData ''Hardest material?'' ''Diamond'' [''Steel'', ''Iron''],
     qData ''3.14 is?'' ''Pi'' [''Phi'', ''E''],
     qData ''Smallest planet?'' ''Mercury'' [''Mars'', ''Pluto''],
     qData ''Number of continents?'' ''7'' [''5'', ''6''],
     qData ''Identify: Verb'' ''Run'' [''Blue'', ''Sky''],
     qData ''Capital of USA?'' ''Washington D.C.'' [''New York'', ''Chicago''],
     qData ''Currency of UK?'' ''Pound'' [''Euro'', ''Dollar''],
     qData ''Symbol for Gold?'' ''Au'' [''Ag'', ''Fe''],
     qData ''Programming language?'' ''JavaScript'' [''HTML'', ''CSS''],
     qData ''Planet with rings?'' ''Saturn'' [''Mars'', ''Venus''],
     qData ''Largest desert?'' ''Antarctica'' [''Sahara'', ''Gobi''],
     qData ''Closest star?'' ''Sun'' [''Proxima'', ''Sirius''],
     qData ''Spider legs count?'' ''8'' [''6'', ''10''],
     qData ''Capital of Spain?'' ''Madrid'' [''Barcelona'', ''Seville'']]"

definition Quiz_hard :: "qData list" where
  "Quiz_hard =
    [qData ''CPU stands for?'' ''Central Processing Unit'' [''Computer Personal Unit'', ''Central Power Unit''],
     qData ''Boiling point of water?'' (''100'' @ [CHR 0xB0] @ ''C'') [''90'' @ [CHR 0xB0] @ ''C'', ''120'' @ [CHR 0xB0] @ ''C''],
     qData ''Speed of light used in?'' ''Optics'' [''Acoustics'', ''Mechanics''],
     qData ''Who painted Mona Lisa?'' ''Da Vinci'' [''Picasso'', ''Van Gogh''],
     qData ''Force that pulls down?'' ''Gravity'' [''Magnetism'', ''Friction''],
     qData ''Largest mammal?'' ''Blue Whale'' [''Elephant'', ''Giraffe''],
     qData ''Square root of 64?'' ''8'' [''6'', ''12''],
     qData ''Author of Harry Potter?'' ''J.K. Rowling'' [''Tolkien'', ''Martin''],
     qData ''Which gas do we breath?'' ''Oxygen'' [''Helium'', ''Nitrogen''],
     qData ''Fastest bird?'' ''Peregrine Falcon'' [''Eagle'', ''Hawk''],
     qData ''Tallest mountain?'' ''Everest'' [''K2'', ''Kilimanjaro''],
     qData ''Capital of Italy?'' ''Rome'' [''Milan'', ''Venice''],
     qData ''Number of bones in ear?'' ''3'' [''2'', ''4''],
     qData ''Where are pyramids?'' ''Egypt'' [''Mexico'', ''Peru''],
     qData ''Symbol for Iron?'' ''Fe'' [''Ir'', ''In''],
     qData ''Primary colors?'' ''R, G, B'' [''O, P, G'', ''B, W, G''],
     qData ''Start of WWI?'' ''1914'' [''1918'', ''1939''],
     qData ''Inventor of Phone?'' ''Bell'' [''Edison'', ''Tesla''],
     qData ''Most spoken language?'' ''English'' [''Spanish'', ''Mandarin''],
     qData ''Frozen water is?'' ''Ice'' [''Steam'', ''Liquid''],
     qData ''Value of a dozen?'' ''12'' [''10'', ''6''],
     qData ''Humans breathe out?'' ''CO2'' [''Oxygen'', ''Nitrogen''],
     qData ''Capital of China?'' ''Beijing'' [''Shanghai'', ''Hong Kong'']]"

definition English_easy :: "qData list" where
  "English_easy =
    [qData ''Opposite of HOT?'' ''Cold'' [''Warm'', ''Soft''],
     qData ''Synonym of HAPPY?'' ''Joyful'' [''Sad'', ''Angry''],
     qData ''Past tense of RUN?'' ''Ran'' [''Runned'', ''Running''],
     qData ''Opposite of BIG?'' ''Small'' [''Huge'', ''Tall''],
     qData ''Synonym of FAST?'' ''Quick'' [''Slow'', ''Lazy''],
     qData ''Rhymes with CAT?'' ''Hat'' [''Dog'', ''Fish''],
     qData ''Which is a noun?'' ''Apple'' [''Eat'', ''Red''],
     qData ''Opposite of DAY?'' ''Night'' [''Sun'', ''Moon''],
     qData ''Homophone of SEA?'' ''See'' [''Say'', ''Saw''],
     qData ''Past tense of EAT?'' ''Ate'' [''Eated'', ''Eating''],
     qData ''Plural of MAN?'' ''Men'' [''Mans'', ''Mens''],
     qData ''Color of Sky?'' ''Blue'' [''Green'', ''Red''],
     qData ''Antonym of UP?'' ''Down'' [''Left'', ''Right'']]"

definition English_medium :: "qData list" where
  "English_medium =
    [qData ''Plural of CHILD?'' ''Children'' [''Childs'', ''Childrens''],
     qData ''Which is a verb?'' ''Jump'' [''Blue'', ''Table''],
     qData ''Plural of MOUSE?'' ''Mice'' [''Mouses'', ''Mees''],
     qData ''Which is an adjective?'' ''Fast'' [''Car'', ''Drive''],
     qData ''Opposite of TRUE?'' ''False'' [''Right'', ''Correct''],
     qData ''Antonym of RICH?'' ''Poor'' [''Wealthy'', ''Gold''],
     qData ''Past tense of GO?'' ''Went'' [''Goed'', ''Going''],
     qData ''Plural of TOOTH?'' ''Teeth'' [''Tooths'', ''Teethes''],
     qData ''Rhymes with MOON?'' ''Spoon'' [''Sun'', ''Star''],
     qData ''Which is a Pronoun?'' ''He'' [''Run'', ''Boy''],
     qData ''Past tense of SEE?'' ''Saw'' [''Seen'', ''Seed''],
     qData ''Plural of FOOT?'' ''Feet'' [''Foots'', ''Feets''],
     qData ''Homophone of TWO?'' ''Too'' [''To'', ''Tow'']]"

definition English_hard :: "qData list" where
  "English_hard =
    [qData ''Synonym of SMART?'' ''Clever'' [''Dumb'', ''Slow''],
     qData ''Synonym of ANGRY?'' ''Mad'' [''Calm'', ''Happy''],
     qData ''Antonym of NEAR?'' ''Far'' [''Close'', ''Here''],
     qData ''Synonym of BEGIN?'' ''Start'' [''End'', ''Finish''],
     qData ''Antonym of HARD?'' ''Soft'' [''Easy'', ''Solid''],
     qData ''Past tense of DO?'' ''Did'' [''Done'', ''Doed''],
     qData ''Rhymes with SKY?'' ''Fly'' [''Blue'', ''Bird''],
     qData ''Which is an Adverb?'' ''Slowly'' [''Fast'', ''Run''],
     qData ''Synonym of BIG?'' ''Large'' [''Tiny'', ''Small''],
     qData ''Antonym of LOVE?'' ''Hate'' [''Like'', ''Friend''],
     qData ''Past tense of BUY?'' ''Bought'' [''Buyed'', ''Bring''],
     qData ''Plural of GOOSE?'' ''Geese'' [''Gooses'', ''Geeses''],
     qData ''Homophone of PAIR?'' ''Pear'' [''Pare'', ''Peel''],
     qData ''Synonym of SCARED?'' ''Afraid'' [''Brave'', ''Bold''],
     qData ''Past tense of COME?'' ''Came'' [''Comed'', ''Coming''],
     qData ''Plural of WOMAN?'' ''Women'' [''Womans'', ''Womens''],
     qData ''Rhymes with LIGHT?'' ''Bright'' [''Dark'', ''Sun''],
     qData ''Which is a Preposition?'' ''Under'' [''Cat'', ''Jump''],
     qData ''Synonym of TIRED?'' ''Sleepy'' [''Awake'', ''Walk''],
     qData ''Antonym of RIGHT?'' ''Wrong'' [''Left'', ''Correct'']]"


definition QuizGenerator_generate :: "int \<Rightarrow> real list \<Rightarrow> (generated \<times> real list) option" where
  "QuizGenerator_generate wv rs = do {
     let pool = Quiz_easy;
     let pool = (if wv \<ge> 4 then pool @ Quiz_medium else pool);
     let pool = (if wv \<ge> 8 then pool @ Quiz_hard else pool);
     (r, rs1) \<leftarrow> random rs;
     let qd = pool ! nat (randInt r (int (length pool)));
     Some (\<lparr>g_question = qd_q qd, g_answer = Str (qd_a qd), g_wrongAnswers = map Str (qd_w qd)\<rparr>, rs1) }"

definition EnglishGenerator_generate :: "int \<Rightarrow> real list \<Rightarrow> (generated \<times> real list) option" where
  "EnglishGenerator_generate wv rs = do {
     let pool = English_easy;
     let pool = (if wv \<ge> 4 then pool @ English_medium else pool);
     let pool = (if wv \<ge> 8 then pool @ English_hard else pool);
     (r, rs1) \<leftarrow> random rs;
     let qd = pool ! nat (randInt r (int (length pool)));
     Some (\<lparr>g_question = qd_q qd, g_answer = Str (qd_a qd), g_wrongAnswers = map Str (qd_w qd)\<rparr>, rs1) }"

text \<open>The destructuring swap \<open>[xs[i], xs[j]] = [xs[j], xs[i]]\<close>.\<close>

definition swap :: "'a list \<Rightarrow> nat \<Rightarrow> nat \<Rightarrow> 'a list" where
  "swap xs i j = xs[i := xs ! j, j := xs ! i]"

text \<open>The shuffle loop \<open>for (i = length - 1; i > 0; i--)\<close>, by its counter.\<close>

fun shuffleLoop :: "nat \<Rightarrow> answer list \<Rightarrow> real list \<Rightarrow> (answer list \<times> real list) option" where
  "shuffleLoop 0 xs rs = Some (xs, rs)"
| "shuffleLoop (Suc n) xs rs =
     (case random rs of
        None \<Rightarrow> None
      | Some (r, rs1) \<Rightarrow> shuffleLoop n (swap xs (Suc n) (nat (randInt r (int (Suc n) + 1)))) rs1)"

text \<open>\<open>Robot.generateQuestion\<close>: the question, the correct answer and the three slots.\<close>

definition generateQuestion :: "string \<Rightarrow> int \<Rightarrow> real list \<Rightarrow> ((string \<times> answer \<times> answer_slots) \<times> real list) option" where
  "generateQuestion md wv rs = do {
     (result, rs1) \<leftarrow> (if md = ''quiz'' then QuizGenerator_generate wv rs
                       else if md = ''english'' then EnglishGenerator_generate wv rs
                       else MathGenerator_generate wv rs);
     let allAnswers = g_answer result # g_wrongAnswers result;
     (allAnswers, rs2) \<leftarrow> shuffleLoop (length allAnswers - 1) allAnswers rs1;
     Some ((g_question result, g_answer result,
            \<lparr>head = allAnswers ! 0, chest = allAnswers ! 1, knee = allAnswers ! 2\<rparr>), rs2) }"

text \<open>\<open>Robot.generateMathQuestion\<close> of the basic build.\<close>

definition math_operands_basic :: "operation \<Rightarrow> real list \<Rightarrow> ((int \<times> int \<times> int) \<times> real list) option" where
  "math_operands_basic operation rs = do {
     (r1, rs1) \<leftarrow> random rs;
     (r2, rs2) \<leftarrow> random rs1;
     (case operation of
        Plus \<Rightarrow>
          (let a = randInt r1 20 + 1; b = randInt r2 20 + 1 in Some ((a, b, a + b), rs2))
      | Minus \<Rightarrow>
          (let a = randInt r1 30 + 10; b = randInt r2 a in Some ((a, b, a - b), rs2))
      | _ \<Rightarrow>
          (let a = randInt r1 12 + 1; b = randInt r2 12 + 1 in Some ((a, b, a * b), rs2))) }"

definition generateMathQuestion_basic :: "real list \<Rightarrow> ((string \<times> answer \<times> answer_slots) \<times> real list) option" where
  "generateMathQuestion_basic rs = do {
     let operations = [Plus, Minus, Times];
     (r0, rs0) \<leftarrow> random rs;
     let operation = operations ! nat (randInt r0 (int (length operations)));
     ((a, b, answer), rs1) \<leftarrow> math_operands_basic operation rs0;
     (wrongAnswers, rs2) \<leftarrow> wrongLoop answer [] rs1;
     let q = show_int a @ '' '' @ operation_text operation @ '' '' @ show_int b @ '' = ?'';
     let allAnswers = Num answer # map Num wrongAnswers;
     (allAnswers, rs3) \<leftarrow> shuffleLoop (length allAnswers - 1) allAnswers rs2;
     Some ((q, Num answer,
            \<lparr>head = allAnswers ! 0, chest = allAnswers ! 1, knee = allAnswers ! 2\<rparr>), rs3) }"

section \<open>Vectors and the arena\<close>

definition vlength :: "vec3 \<Rightarrow> real" where
  "vlength v = sqrt (vx v * vx v + vy v * vy v + vz v * vz v)"

definition multiplyScalar :: "vec3 \<Rightarrow> real \<Rightarrow> vec3" where
  "multiplyScalar v k = \<lparr>vx = vx v * k, vy = vy v * k, vz = vz v * k\<rparr>"

text \<open>\<open>normalize()\<close> divides by \<open>length() || 1\<close>.\<close>

definition vnormalize :: "vec3 \<Rightarrow> vec3" where
  "vnormalize v = (let l = vlength v in multiplyScalar v (1 / (if l = 0 then 1 else l)))"

definition distanceTo :: "vec3 \<Rightarrow> vec3 \<Rightarrow> real" where
  "distanceTo u v = vlength \<lparr>vx = vx u - vx v, vy = vy u - vy v, vz = vz u - vz v\<rparr>"

text \<open>The direction the camera looks in, for rotation order \<open>YXZ\<close> with \<open>rotation.y = yaw\<close>
  and \<open>rotation.x = pitch\<close>: the vector \<open>(0, 0, -1)\<close> turned by the camera's quaternion.\<close>

definition cameraDirection :: "real \<Rightarrow> real \<Rightarrow> vec3" where
  "cameraDirection yw ptch =
     \<lparr>vx = - sin yw * cos ptch, vy = sin ptch, vz = - cos yw * cos ptch\<rparr>"

text \<open>\<open>applyAxisAngle\<close> about the axis \<open>(0, 1, 0)\<close>.\<close>

definition applyAxisAngleY :: "vec3 \<Rightarrow> real \<Rightarrow> vec3" where
  "applyAxisAngleY v t = \<lparr>vx = vx v * cos t + vz v * sin t, vy = vy v, vz = vz v * cos t - vx v * sin t\<rparr>"

text \<open>\<open>Math.max(-boundaryLimit, Math.min(boundaryLimit, v))\<close> and the two values of
  \<open>boundaryLimit\<close>: 45 wherever a robot is placed, 35 in \<open>updatePlayerMovement\<close>.\<close>

definition clamp :: "real \<Rightarrow> real \<Rightarrow> real" where
  "clamp boundaryLimit v = max (- boundaryLimit) (min boundaryLimit v)"

definition robot_boundaryLimit :: real where
  "robot_boundaryLimit = 45"

definition player_boundaryLimit :: real where
  "player_boundaryLimit = 35"

section \<open>Robots\<close>

definition typePool :: "int \<Rightarrow> robot_type list" where
  "typePool wv =
     (if wv \<ge> 3 \<and> wv \<le> 5 then
        [Normal, Normal, Normal, Normal, Normal, Normal, Normal, Fast, Fast, Fast]
      else if wv \<ge> 6 \<and> wv \<le> 9 then
        [Normal, Normal, Normal, Normal, Normal, Fast, Fast, Fast, Heavy, Heavy]
      else if wv \<ge> 10 then
        [Normal, Normal, Normal, Normal, Fast, Fast, Fast, Fast, Heavy, Heavy]
      else [Normal])"

text \<open>\<open>baseSpeed\<close>, \<open>damage\<close> and \<open>scale\<close> by type, in the enhanced and in the basic build.\<close>

fun type_stats :: "robot_type \<Rightarrow> real \<times> int \<times> real" where
  "type_stats Fast = (3.0, 10, 0.85)"
| "type_stats Heavy = (1.0, 25, 1.3)"
| "type_stats Normal = (1.8, 12, 1.0)"

fun type_stats_basic :: "robot_type \<Rightarrow> real \<times> int \<times> real" where
  "type_stats_basic Fast = (4, 10, 0.85)"
| "type_stats_basic Heavy = (1.5, 25, 1.3)"
| "type_stats_basic Normal = (2.5, 12, 1.0)"

text \<open>The constructor \<open>new Robot(type = null)\<close> of the enhanced build. It reads the
  wave and the mode from the game state and the player's position and view from the
  camera.\<close>

definition Robot_new :: "robot_type option \<Rightarrow> gameState \<Rightarrow> vec3 \<Rightarrow> real \<Rightarrow> real \<Rightarrow> real list \<Rightarrow> (robot \<times> real list) option" where
  "Robot_new type g cam yw ptch rs = do {
     (ty, rs1) \<leftarrow> (case type of
                     Some t \<Rightarrow> Some (t, rs)
                   | None \<Rightarrow> do {
                       (r, rs') \<leftarrow> random rs;
                       Some (typePool (wave g) ! nat (randInt r (int (length (typePool (wave g))))), rs') });
     (rd, rs2) \<leftarrow> random rs1;
     let distance = 35 + rd * 15;
     let spawnDir = vnormalize ((cameraDirection yw ptch)\<lparr>vy := 0\<rparr>);
     (ra, rs3) \<leftarrow> random rs2;
     let angleOffset = (ra - 0.5) * (pi * 1.5);
     let spawnDir = applyAxisAngleY spawnDir angleOffset;
     let p = \<lparr>vx = clamp robot_boundaryLimit (vx cam + vx spawnDir * distance), vy = 0,
              vz = clamp robot_boundaryLimit (vz cam + vz spawnDir * distance)\<rparr>;
     (rw, rs4) \<leftarrow> random rs3;
     ((q, ca, sl), rs5) \<leftarrow> generateQuestion (mode g) (wave g) rs4;
     Some (\<lparr>rtype = ty, baseSpeed = fst (type_stats ty), damage = fst (snd (type_stats ty)),
            scale = snd (snd (type_stats ty)), position = p,
            speed = fst (type_stats ty) + real_of_int (wave g) * 0.1,
            alive = True, dying = False, dyingTimer = 0, walkTime = rw * pi * 2,
            attackCooldown = 0, question = q, correctAnswer = ca, answers = sl\<rparr>, rs5) }"

text \<open>The constructor of the basic build: any type, anywhere on the circle around the player.\<close>

definition Robot_new_basic :: "robot_type option \<Rightarrow> gameState \<Rightarrow> vec3 \<Rightarrow> real list \<Rightarrow> (robot \<times> real list) option" where
  "Robot_new_basic type g cam rs = do {
     (ty, rs1) \<leftarrow> (case type of
                     Some t \<Rightarrow> Some (t, rs)
                   | None \<Rightarrow> do {
                       (r, rs') \<leftarrow> random rs;
                       Some ([Normal, Fast, Heavy] ! nat (randInt r 3), rs') });
     (ra, rs2) \<leftarrow> random rs1;
     let angle = ra * pi * 2;
     (rd, rs3) \<leftarrow> random rs2;
     let distance = 35 + rd * 15;
     let p = \<lparr>vx = clamp robot_boundaryLimit (vx cam + sin angle * distance), vy = 0,
              vz = clamp robot_boundaryLimit (vz cam - cos angle * distance)\<rparr>;
     (rw, rs4) \<leftarrow> random rs3;
     ((q, ca, sl), rs5) \<leftarrow> generateMathQuestion_basic rs4;
     Some (\<lparr>rtype = ty, baseSpeed = fst (type_stats_basic ty),
            damage = fst (snd (type_stats_basic ty)),
            scale = snd (snd (type_stats_basic ty)), position = p,
            speed = fst (type_stats_basic ty) + real_of_int (wave g) * 0.2,
            alive = True, dying = False, dyingTimer = 0, walkTime = rw * pi * 2,
            attackCooldown = 0, question = q, correctAnswer = ca, answers = sl\<rparr>, rs5) }"

text \<open>\<open>endGame\<close>: the end-of-run transition (the revive modal and the game-over screen
  both leave \<open>isRunning\<close> false).\<close>

definition endGame :: "gameState \<Rightarrow> gameState" where
  "endGame g = (if \<not> isRunning g then g else g\<lparr>isRunning := False\<rparr>)"

text \<open>\<open>Robot.attackPlayer\<close>, with the two numbers \<open>Math.random()\<close> returns for the respawn
  angle and distance.\<close>

definition attackPlayer :: "vec3 \<Rightarrow> real \<times> real \<Rightarrow> gameState \<times> robot \<Rightarrow> gameState \<times> robot" where
  "attackPlayer cam rolls gr =
     (case gr of (g, r) \<Rightarrow>
        if \<not> isRunning g then (g, r)
        else
          (let r1 = r\<lparr>attackCooldown := 1.5\<rparr>;
               g1 = g\<lparr>health := health g - damage r\<rparr>
           in if health g1 \<le> 0 then (endGame g1, r1)
              else
                (let angle = fst rolls * pi * 2;
                     distance = 35 + snd rolls * 15
                 in (g1, r1\<lparr>position :=
                       \<lparr>vx = clamp robot_boundaryLimit (vx cam + sin angle * distance), vy = 0,
                        vz = clamp robot_boundaryLimit (vz cam - cos angle * distance)\<rparr>\<rparr>))))"

text \<open>\<open>Robot.update\<close>.\<close>

definition Robot_update :: "real \<Rightarrow> vec3 \<Rightarrow> real \<times> real \<Rightarrow> gameState \<times> robot \<Rightarrow> gameState \<times> robot" where
  "Robot_update deltaTime cam rolls gr =
     (case gr of (g, r) \<Rightarrow>
        if dying r then
          (let r1 = r\<lparr>dyingTimer := dyingTimer r + deltaTime\<rparr>
           in (g, if dyingTimer r1 > 1 then r1\<lparr>alive := False\<rparr> else r1))
        else
          (let r1 = (if attackCooldown r > 0
                     then r\<lparr>attackCooldown := attackCooldown r - deltaTime\<rparr> else r);
               direction = \<lparr>vx = vx cam - vx (position r1), vy = 0,
                            vz = vz cam - vz (position r1)\<rparr>;
               distanceToPlayer = vlength direction;
               step = multiplyScalar (vnormalize direction) (speed r1 * deltaTime);
               p = position r1;
               p1 = \<lparr>vx = clamp robot_boundaryLimit (vx p + vx step), vy = vy p + vy step,
                     vz = clamp robot_boundaryLimit (vz p + vz step)\<rparr>;
               walkSpeedMultiplier =
                 (if rtype r1 = Fast then 1.5 else if rtype r1 = Heavy then 0.7 else 1.0);
               wt = walkTime r1 + deltaTime * 8 * walkSpeedMultiplier;
               r2 = r1\<lparr>position := p1\<lparr>vy := \<bar>sin (wt * 2)\<bar> * 0.1\<rparr>, walkTime := wt\<rparr>;
               attackRange = (if rtype r2 = Heavy then 4 else 3)
           in if distanceToPlayer < attackRange \<and> attackCooldown r2 \<le> 0
              then attackPlayer cam rolls (g, r2) else (g, r2)))"

section \<open>The frame loop\<close>

text \<open>What one call of \<open>animate\<close> reads from outside: the clock's delta, the key and
  joystick state, the random numbers for a robot spawned in this frame, and, per robot (by
  index in the active list), the two random numbers of a respawn after an attack.\<close>

record frame =
  dt :: real
  key_forward :: bool
  key_backward :: bool
  key_left :: bool
  key_right :: bool
  key_sprint :: bool
  joystickX :: real
  joystickY :: real
  spawnRolls :: "real list"
  respawnRolls :: "nat \<Rightarrow> real \<times> real"

definition moveSpeed :: real where "moveSpeed = 8"
definition sprintMultiplier :: real where "sprintMultiplier = 1.5"
definition gravity :: real where "gravity = - 25"
definition headBobSpeed :: real where "headBobSpeed = 14"
definition headBobAmount :: real where "headBobAmount = 0.06"
definition headBobSideAmount :: real where "headBobSideAmount = 0.03"

text \<open>\<open>crossVectors(v, (0, 1, 0))\<close>.\<close>

definition crossUp :: "vec3 \<Rightarrow> vec3" where
  "crossUp v = \<lparr>vx = vy v * 0 - vz v * 1, vy = vz v * 0 - vx v * 0, vz = vx v * 1 - vy v * 0\<rparr>"

definition addScaled :: "vec3 \<Rightarrow> vec3 \<Rightarrow> real \<Rightarrow> vec3" where
  "addScaled u v k = \<lparr>vx = vx u + vx v * k, vy = vy u + vy v * k, vz = vz u + vz v * k\<rparr>"

definition updatePlayerMovement :: "frame \<Rightarrow> world \<Rightarrow> world" where
  "updatePlayerMovement f w =
     (let deltaTime = dt f;
          moveX = (if key_right f then 1 else 0) - (if key_left f then 1 else 0) + joystickX f;
          moveZ = (if key_forward f then 1 else 0) - (if key_backward f then 1 else 0) - joystickY f;
          moving = ((moveX \<noteq> 0 \<or> moveZ \<noteq> 0) \<and> isGrounded w);
          vel = velocityY w + gravity * deltaTime;
          py = playerY w + vel * deltaTime;
          landed = (py \<le> 2);
          py1 = (if landed then 2 else py);
          vel1 = (if landed then 0 else vel);
          grounded = (if landed then True else isGrounded w);
          currentSpeed = (if key_sprint f then moveSpeed * sprintMultiplier else moveSpeed);
          hbt = (if moving
                 then headBobTime w + deltaTime * headBobSpeed * (if key_sprint f then 1.4 else 1.0)
                 else headBobTime w);
          bob = (if moving
                 then currentBobOffset w + (sin hbt * headBobAmount - currentBobOffset w) * 0.3
                 else (let b = currentBobOffset w * 0.9 in if \<bar>b\<bar> < 0.001 then 0 else b));
          side = (if moving
                  then currentSideOffset w + (cos (hbt * 0.5) * headBobSideAmount - currentSideOffset w) * 0.3
                  else (let b = currentSideOffset w * 0.9 in if \<bar>b\<bar> < 0.001 then 0 else b));
          cam = camera w;
          cam1 = (if moveX \<noteq> 0 \<or> moveZ \<noteq> 0 then
                    (let forward = vnormalize ((cameraDirection (yaw w) (pitch w))\<lparr>vy := 0\<rparr>);
                         right = vnormalize (crossUp forward);
                         movement = addScaled (addScaled \<lparr>vx = 0, vy = 0, vz = 0\<rparr> forward moveZ) right moveX;
                         movement = multiplyScalar (vnormalize movement) (currentSpeed * deltaTime)
                     in cam\<lparr>vx := vx cam + vx movement, vz := vz cam + vz movement\<rparr>)
                  else cam);
          cam2 = cam1\<lparr>vx := clamp player_boundaryLimit (vx cam1)\<rparr>;
          cam3 = cam2\<lparr>vz := clamp player_boundaryLimit (vz cam2)\<rparr>
      in w\<lparr>isMoving := moving, velocityY := vel1, playerY := py1, isGrounded := grounded,
            headBobTime := hbt, currentBobOffset := bob, currentSideOffset := side,
            camera := cam3\<lparr>vy := py1 + bob\<rparr>\<rparr>)"

text \<open>The loop \<open>for (const robot of robots) robot.update(deltaTime)\<close>.\<close>

fun updateRobots :: "real \<Rightarrow> vec3 \<Rightarrow> (nat \<Rightarrow> real \<times> real) \<Rightarrow> nat \<Rightarrow> gameState \<Rightarrow> robot list \<Rightarrow> gameState \<times> robot list" where
  "updateRobots deltaTime cam rolls i g [] = (g, [])"
| "updateRobots deltaTime cam rolls i g (r # rs) =
     (case Robot_update deltaTime cam (rolls i) (g, r) of
        (g1, r1) \<Rightarrow>
          (case updateRobots deltaTime cam rolls (Suc i) g1 rs of
             (g2, rs1) \<Rightarrow> (g2, r1 # rs1)))"

definition ExplosionParticle_update :: "real \<Rightarrow> particle \<Rightarrow> particle" where
  "ExplosionParticle_update deltaTime p = p\<lparr>p_life := p_life p - p_decay p * deltaTime\<rparr>"

definition BulletTrail_update :: "real \<Rightarrow> bullet \<Rightarrow> bullet" where
  "BulletTrail_update deltaTime b = b\<lparr>b_life := b_life b - deltaTime\<rparr>"

text \<open>\<open>HealthPickup.update\<close>: bobbing and the scale animation (\<open>bobSpeed = 3\<close>,
  \<open>targetScale = 0.4\<close>).\<close>

definition HealthPickup_update :: "real \<Rightarrow> pickup \<Rightarrow> pickup" where
  "HealthPickup_update deltaTime p =
     (let t = pk_time p + deltaTime * 3;
          p1 = p\<lparr>pk_time := t, pk_position := (pk_position p)\<lparr>vy := 1.5 + sin t * 0.3\<rparr>\<rparr>
      in if pk_scale p1 < 0.4
         then (let s = pk_scale p1 + deltaTime * 2 in p1\<lparr>pk_scale := (if s > 0.4 then 0.4 else s)\<rparr>)
         else p1)"

text \<open>The loop \<open>for (const pickup of pickups)\<close> of \<open>animate\<close> (enhanced build).\<close>

fun updatePickups :: "real \<Rightarrow> vec3 \<Rightarrow> gameState \<Rightarrow> pickup list \<Rightarrow> gameState \<times> pickup list" where
  "updatePickups deltaTime cam g [] = (g, [])"
| "updatePickups deltaTime cam g (p # ps) =
     (let p1 = HealthPickup_update deltaTime p;
          dist = distanceTo cam (pk_position p1)
      in if dist < 3 then
           (case updatePickups deltaTime cam
                   (g\<lparr>health := min (maxHealth g) (health g + 20)\<rparr>) ps of
              (g2, ps1) \<Rightarrow> (g2, p1\<lparr>collected := True\<rparr> # ps1))
         else
           (case updatePickups deltaTime cam g ps of
              (g2, ps1) \<Rightarrow> (g2, p1 # ps1)))"

text \<open>\<open>spawnRobot\<close> when the spawn timer has run out.\<close>

definition spawnStep :: "frame \<Rightarrow> world \<Rightarrow> world option" where
  "spawnStep f w =
     (let w1 = w\<lparr>spawnTimer := spawnTimer w + dt f\<rparr>
      in if spawnTimer w1 \<ge> spawnInterval w1 then
           (case Robot_new None (gs w1) (camera w1) (yaw w1) (pitch w1) (spawnRolls f) of
              None \<Rightarrow> None
            | Some (r, rest) \<Rightarrow> Some (w1\<lparr>robots := robots w1 @ [r], spawnTimer := 0\<rparr>))
         else Some w1)"

definition robotStep :: "frame \<Rightarrow> world \<Rightarrow> world" where
  "robotStep f w =
     (case updateRobots (dt f) (camera w) (respawnRolls f) 0 (gs w) (robots w) of
        (g, rs) \<Rightarrow> w\<lparr>gs := g, robots := filter alive rs\<rparr>)"

definition effectStep :: "frame \<Rightarrow> world \<Rightarrow> world" where
  "effectStep f w =
     w\<lparr>particles := filter (\<lambda>p. p_life p > 0) (map (ExplosionParticle_update (dt f)) (particles w)),
       bullets := filter (\<lambda>b. b_life b > 0) (map (BulletTrail_update (dt f)) (bullets w))\<rparr>"

definition pickupStep :: "frame \<Rightarrow> world \<Rightarrow> world" where
  "pickupStep f w =
     (case updatePickups (dt f) (camera w) (gs w) (pickups w) of
        (g, ps) \<Rightarrow> w\<lparr>gs := g, pickups := filter (\<lambda>p. \<not> collected p) ps\<rparr>)"

text \<open>\<open>animate\<close> of the enhanced build.\<close>

definition animate :: "frame \<Rightarrow> world \<Rightarrow> world option" where
  "animate f w =
     (if isPaused (gs w) then Some w
      else if isRunning (gs w) then
        (case spawnStep f (updatePlayerMovement f w) of
           None \<Rightarrow> None
         | Some w1 \<Rightarrow> Some (pickupStep f (effectStep f (robotStep f w1))))
      else Some w)"

section \<open>Starting a run\<close>

definition startGame :: "world \<Rightarrow> real list \<Rightarrow> world option" where
  "startGame w rs =
     (let w1 = w\<lparr>yaw := 0, pitch := 0, camera := \<lparr>vx = 0, vy = 2, vz = 0\<rparr>,
                 playerY := 2, velocityY := 0, isGrounded := True, headBobTime := 0,
                 currentBobOffset := 0, currentSideOffset := 0\<rparr>;
          g = (gs w1)\<lparr>score := 0, wave := 1, health := maxHealth (gs w1), combo := 1,
                      kills := 0, isRunning := True\<rparr>;
          w2 = w1\<lparr>gs := g, robots := [], pickups := [], particles := [], bullets := [],
                  spawnTimer := 0, spawnInterval := 2\<rparr>
      in case Robot_new None (gs w2) (camera w2) (yaw w2) (pitch w2) rs of
           None \<Rightarrow> None
         | Some (r, rest) \<Rightarrow> Some (w2\<lparr>robots := robots w2 @ [r]\<rparr>))"

text \<open>The basic build has no pickups, no pause and no mode: its functions leave those
  fields of the state alone.\<close>

definition startGame_basic :: "world \<Rightarrow> real list \<Rightarrow> world option" where
  "startGame_basic w rs =
     (let w1 = w\<lparr>yaw := 0, pitch := 0, camera := \<lparr>vx = 0, vy = 2, vz = 0\<rparr>,
                 playerY := 2, velocityY := 0, isGrounded := True, headBobTime := 0,
                 currentBobOffset := 0, currentSideOffset := 0\<rparr>;
          g = (gs w1)\<lparr>score := 0, wave := 1, health := maxHealth (gs w1), combo := 1,
                      kills := 0, isRunning := True\<rparr>;
          w2 = w1\<lparr>gs := g, robots := [], particles := [], bullets := [],
                  spawnTimer := 0, spawnInterval := 2\<rparr>
      in case Robot_new_basic None (gs w2) (camera w2) rs of
           None \<Rightarrow> None
         | Some (r, rest) \<Rightarrow> Some (w2\<lparr>robots := robots w2 @ [r]\<rparr>))"

definition resolveHit_basic :: "world \<Rightarrow> fire \<Rightarrow> nat \<Rightarrow> answer \<Rightarrow> world" where
  "resolveHit_basic w f i a =
     (let r = robots w ! i;
          w1 = w\<lparr>bullets := bullets w @ [\<lparr>b_life = 0.2\<rparr>]\<rparr>
      in if a = correctAnswer r then
           (let g = gs w1;
                points = 100 * combo g;
                g' = g\<lparr>score := score g + points, kills := kills g + 1,
                        combo := min (combo g + 1) 10\<rparr>;
                w2 = w1\<lparr>robots := (robots w1)[i := r\<lparr>dying := True\<rparr>], gs := g',
                         particles := particles w1 @ createExplosion (isMobile w1) 40 (decayRoll f)\<rparr>
            in if kills (gs w2) mod 5 = 0
               then w2\<lparr>gs := (gs w2)\<lparr>wave := wave (gs w2) + 1\<rparr>,
                       spawnInterval := max 0.8 (spawnInterval w2 - 0.2)\<rparr>
               else w2)
         else
           w1\<lparr>gs := (gs w1)\<lparr>combo := 1\<rparr>,
              particles := particles w1 @ createExplosion (isMobile w1) 15 (decayRoll f)\<rparr>)"

definition onShoot_basic :: "world \<Rightarrow> fire \<Rightarrow> world" where
  "onShoot_basic w f =
     (if \<not> isRunning (gs w) then w
      else (case firstHit (raycast f) 0 (robots w) of
              None \<Rightarrow> w
            | Some (i, p, a) \<Rightarrow> resolveHit_basic w f i a))"

text \<open>A fire event of the basic build that hits the right zone.\<close>

definition hitCorrect_basic :: "world \<Rightarrow> fire \<Rightarrow> bool" where
  "hitCorrect_basic w f \<longleftrightarrow>
     isRunning (gs w) \<and>
     (case firstHit (raycast f) 0 (robots w) of
        None \<Rightarrow> False
      | Some (i, p, a) \<Rightarrow> a = correctAnswer (robots w ! i))"

section \<open>Properties stated about the program\<close>





text \<open>A point whose two ground coordinates lie in \<open>[-limit, limit]\<close>.\<close>

definition withinLimit :: "real \<Rightarrow> vec3 \<Rightarrow> bool" where
  "withinLimit boundaryLimit p \<longleftrightarrow>
     - boundaryLimit \<le> vx p \<and> vx p \<le> boundaryLimit \<and>
     - boundaryLimit \<le> vz p \<and> vz p \<le> boundaryLimit"

text \<open>The heal of a pickup or of a wave bonus:
  \<open>health = Math.min(maxHealth, health + 20)\<close>.\<close>

definition heal :: "gameState \<Rightarrow> gameState" where
  "heal g = g\<lparr>health := min (maxHealth g) (health g + 20)\<rparr>"

text \<open>Whether the player at \<open>cam\<close> collects the pickup in a frame of length
  \<open>deltaTime\<close>: the test of the loop, on the pickup as its \<open>update\<close> leaves it.\<close>

definition inReach :: "real \<Rightarrow> vec3 \<Rightarrow> pickup \<Rightarrow> bool" where
  "inReach deltaTime cam p \<longleftrightarrow>
     distanceTo cam (pk_position (HealthPickup_update deltaTime p)) < 3"

text \<open>One robot over many frames. What its \<open>update\<close> reads in a frame: the clock's
  delta, the camera, the respawn rolls and the game state as the frame finds it (other
  robots, heals and shots may have changed it since this robot's last update).\<close>

record rframe =
  rf_dt :: real
  rf_camera :: vec3
  rf_rolls :: "real \<times> real"
  rf_gs :: gameState

text \<open>The simulated times (sums of the deltas, from \<open>t\<close>) of the frames in which the
  robot's update takes health from the player.\<close>

fun damageTimes :: "real \<Rightarrow> robot \<Rightarrow> rframe list \<Rightarrow> real list" where
  "damageTimes t r [] = []"
| "damageTimes t r (f # fs) =
     (case Robot_update (rf_dt f) (rf_camera f) (rf_rolls f) (rf_gs f, r) of
        (g', r') \<Rightarrow>
          (if health g' < health (rf_gs f) then [t + rf_dt f] else [])
          @ damageTimes (t + rf_dt f) r' fs)"

text \<open>Successive times at least \<open>d\<close> apart.\<close>

fun spaced :: "real \<Rightarrow> real list \<Rightarrow> bool" where
  "spaced d (x # y # ys) = (x + d \<le> y \<and> spaced d (y # ys))"
| "spaced d ys = True"

section \<open>Sample states\<close>

text \<open>The state when the page has loaded, in the enhanced and in the basic build, and the
  enhanced one with the game running.\<close>

definition initial_world :: world where
  "initial_world =
     \<lparr>gs = \<lparr>score = 0, wave = 1, health = 100, maxHealth = 100, combo = 1, kills = 0,
            isRunning = False, isPaused = False, mode = ''math''\<rparr>,
      robots = [], pickups = [], particles = [], bullets = [],
      spawnTimer = 0, spawnInterval = 2, camera = \<lparr>vx = 0, vy = 2, vz = 0\<rparr>,
      yaw = 0, pitch = 0, playerY = 2, velocityY = 0, isGrounded = True, isMoving = False,
      headBobTime = 0, currentBobOffset = 0, currentSideOffset = 0, isMobile = False\<rparr>"

definition initial_world_basic :: world where
  "initial_world_basic =
     initial_world\<lparr>gs := (gs initial_world)\<lparr>health := 150, maxHealth := 150\<rparr>\<rparr>"

definition running_world :: world where
  "running_world = initial_world\<lparr>gs := (gs initial_world)\<lparr>isRunning := True\<rparr>\<rparr>"

text \<open>A robot asking \<open>3 + 4 = ?\<close> with the answer on its chest, a running game with four
  of them, and a shot along a ray that meets the given zone of every robot.\<close>

definition sample_robot :: robot where
  "sample_robot =
     \<lparr>rtype = Normal, baseSpeed = 1.8, damage = 12, scale = 1,
      position = \<lparr>vx = 10, vy = 0, vz = - 20\<rparr>, speed = 1.9, alive = True, dying = False,
      dyingTimer = 0, walkTime = 0, attackCooldown = 0, question = ''3 + 4 = ?'',
      correctAnswer = Num 7, answers = \<lparr>head = Num 5, chest = Num 7, knee = Num 9\<rparr>\<rparr>"

definition sample_world :: world where
  "sample_world = running_world\<lparr>robots := [sample_robot, sample_robot, sample_robot, sample_robot]\<rparr>"

definition aim :: "part \<Rightarrow> fire" where
  "aim p = \<lparr>raycast = (\<lambda>i. [Some p]), dropRoll = 0.5, pickupRoll = 0.5, decayRoll = (\<lambda>k. 0.5)\<rparr>"

text \<open>The same four robots one kill before the second wave, with the player hurt; with the
  first robot already dying; and paused in mid-run, three kills into the first wave.\<close>

definition fifth_kill_world :: world where
  "fifth_kill_world = sample_world\<lparr>gs := (gs sample_world)\<lparr>kills := 4, health := 70\<rparr>\<rparr>"

definition fifth_kill_world_basic :: world where
  "fifth_kill_world_basic =
     sample_world\<lparr>gs := (gs sample_world)\<lparr>kills := 4, health := 100, maxHealth := 150\<rparr>\<rparr>"


definition paused_world :: world where
  "paused_world =
     sample_world\<lparr>gs := (gs sample_world)\<lparr>score := 600, combo := 4, kills := 3, health := 64,
                                         isPaused := True\<rparr>,
                  spawnTimer := 1.2, camera := \<lparr>vx = 12, vy = 2, vz = - 7\<rparr>\<rparr>"

text \<open>Rolls for the constructors, and the robots they build from them at the start of a
  run: the enhanced constructor in math mode and in quiz mode, the basic constructor.\<close>

definition math_rolls :: "real list" where
  "math_rolls = [1 / 2, 1 / 2, 1 / 2, 1 / 2, 0, 3 / 10, 2 / 5, 7 / 10, 1 / 5, 0, 0]"

definition math_robot :: robot where
  "math_robot =
     \<lparr>rtype = Normal, baseSpeed = 1.8, damage = 12, scale = 1,
      position = \<lparr>vx = 0, vy = 0, vz = - 42.5\<rparr>, speed = 1.9, alive = True, dying = False,
      dyingTimer = 0, walkTime = pi, attackCooldown = 0, question = ''4 + 5 = ?'',
      correctAnswer = Num 9, answers = \<lparr>head = Num 11, chest = Num 6, knee = Num 9\<rparr>\<rparr>"



definition basic_rolls :: "real list" where
  "basic_rolls = [0, 0, 1 / 2, 1 / 2, 0, 3 / 10, 2 / 5, 7 / 10, 1 / 5, 0, 0]"

definition basic_robot :: robot where
  "basic_robot =
     \<lparr>rtype = Normal, baseSpeed = 2.5, damage = 12, scale = 1,
      position = \<lparr>vx = 0, vy = 0, vz = - 42.5\<rparr>, speed = 2.7, alive = True, dying = False,
      dyingTimer = 0, walkTime = pi, attackCooldown = 0, question = ''7 + 9 = ?'',
      correctAnswer = Num 16, answers = \<lparr>head = Num 18, chest = Num 13, knee = Num 16\<rparr>\<rparr>"

text \<open>The states \<open>startGame\<close> reaches from the freshly loaded page with these rolls.\<close>

definition started_world :: world where
  "started_world = running_world\<lparr>robots := [math_robot]\<rparr>"

definition started_world_basic :: world where
  "started_world_basic =
     initial_world_basic\<lparr>gs := (gs initial_world_basic)\<lparr>isRunning := True\<rparr>,
                         robots := [basic_robot]\<rparr>"

text \<open>A frame of a sixtieth of a second with no input, in which no robot spawns.\<close>

definition idle_frame :: frame where
  "idle_frame =
     \<lparr>dt = 1 / 60, key_forward = False, key_backward = False, key_left = False,
      key_right = False, key_sprint = False, joystickX = 0, joystickY = 0,
      spawnRolls = [], respawnRolls = (\<lambda>i. (0, 0))\<rparr>"

text \<open>A robot standing 40 units out on the x axis, beyond the player's limit, and one a
  single unit from the player.\<close>

definition far_robot :: robot where
  "far_robot = sample_robot\<lparr>position := \<lparr>vx = 40, vy = 0, vz = 0\<rparr>\<rparr>"

definition near_robot :: robot where
  "near_robot = sample_robot\<lparr>position := \<lparr>vx = 1, vy = 0, vz = 0\<rparr>\<rparr>"

text \<open>Three frames of one second in which the player is within the reach of
  \<open>near_robot\<close>: at the start, and twice where the robot has respawned.\<close>

definition contact_frames :: "rframe list" where
  "contact_frames =
     [\<lparr>rf_dt = 1, rf_camera = \<lparr>vx = 0, vy = 2, vz = 0\<rparr>, rf_rolls = (0, 0), rf_gs = gs running_world\<rparr>,
      \<lparr>rf_dt = 1, rf_camera = \<lparr>vx = 0, vy = 2, vz = - 35\<rparr>, rf_rolls = (0, 0), rf_gs = gs running_world\<rparr>,
      \<lparr>rf_dt = 1, rf_camera = \<lparr>vx = 0, vy = 2, vz = - 35\<rparr>, rf_rolls = (0, 0), rf_gs = gs running_world\<rparr>]"


text \<open>A pickup at the player's feet and one 20 units away, both at the top of their bob
  after a frame of a sixtieth of a second; the running game with these two and the player at
  90 health.\<close>

definition near_pickup :: pickup where
  "near_pickup =
     \<lparr>pk_position = \<lparr>vx = 0, vy = 1.5, vz = 0\<rparr>, pk_scale = 0.4, pk_time = pi - 1 / 20,
      collected = False\<rparr>"

definition far_pickup :: pickup where
  "far_pickup =
     \<lparr>pk_position = \<lparr>vx = 20, vy = 1.5, vz = 0\<rparr>, pk_scale = 0.4, pk_time = pi - 1 / 20,
      collected = False\<rparr>"

definition pickup_world :: world where
  "pickup_world =
     running_world\<lparr>gs := (gs running_world)\<lparr>health := 90\<rparr>,
                   pickups := [near_pickup, far_pickup]\<rparr>"

section \<open>Facts about the fire loop\<close>

lemma firstHit_bounds:
  "firstHit ray k rs = Some (i, p, a) \<Longrightarrow> k \<le> i \<and> i < k + length rs"
proof (induction rs arbitrary: k)
  case Nil
  then show ?case by simp
next
  case (Cons r rs)
  then show ?case
    by (fastforce split: if_splits option.splits)
qed

lemma firstHit_target:
  "firstHit ray k rs = Some (i, p, a) \<Longrightarrow>
     \<not> dying (rs ! (i - k)) \<and> checkHit (rs ! (i - k)) (ray i) = Some (p, a)"
proof (induction rs arbitrary: k)
  case Nil
  then show ?case by simp
next
  case (Cons r rs)
  show ?case
  proof (cases "\<not> dying r \<and> checkHit r (ray k) \<noteq> None")
    case True
    with Cons.prems show ?thesis by (auto split: option.splits)
  next
    case False
    with Cons.prems have rec: "firstHit ray (Suc k) rs = Some (i, p, a)"
      by (auto split: if_splits option.splits)
    from firstHit_bounds[OF rec] have "Suc k \<le> i" by simp
    then have "i - k = Suc (i - Suc k)" by simp
    with Cons.IH[OF rec] show ?thesis by simp
  qed
qed

section \<open>Scoring and combo\<close>

lemma waveAdvance_keeps [simp]:
  "score (gs (waveAdvance w)) = score (gs w)"
  "kills (gs (waveAdvance w)) = kills (gs w)"
  "combo (gs (waveAdvance w)) = combo (gs w)"
  "robots (waveAdvance w) = robots w"
  "isRunning (gs (waveAdvance w)) = isRunning (gs w)"
  "maxHealth (gs (waveAdvance w)) = maxHealth (gs w)"
  "pickups (waveAdvance w) = pickups w"
  by (simp_all add: waveAdvance_def Let_def)

lemma resolveHit_correct:
  assumes "a = correctAnswer (robots w ! i)"
  shows "score (gs (resolveHit w f i a)) = score (gs w) + 100 * combo (gs w)"
    and "kills (gs (resolveHit w f i a)) = kills (gs w) + 1"
    and "combo (gs (resolveHit w f i a)) = min (combo (gs w) + 1) 10"
    and "robots (resolveHit w f i a) = (robots w)[i := (robots w ! i)\<lparr>dying := True\<rparr>]"
  using assms by (simp_all add: resolveHit_def Let_def)

lemma resolveHit_wrong:
  assumes "a \<noteq> correctAnswer (robots w ! i)"
  shows "score (gs (resolveHit w f i a)) = score (gs w)"
    and "kills (gs (resolveHit w f i a)) = kills (gs w)"
    and "combo (gs (resolveHit w f i a)) = 1"
    and "robots (resolveHit w f i a) = robots w"
    and "gs (resolveHit w f i a) = (gs w)\<lparr>combo := 1\<rparr>"
    and "pickups (resolveHit w f i a) = pickups w"
    and "spawnInterval (resolveHit w f i a) = spawnInterval w"
  using assms by (simp_all add: resolveHit_def Let_def)

lemma hitCorrect_cases:
  "hitCorrect w f \<Longrightarrow>
     \<exists>i p. firstHit (raycast f) 0 (robots w) = Some (i, p, correctAnswer (robots w ! i)) \<and>
       onShoot w f = resolveHit w f i (correctAnswer (robots w ! i))"
  by (auto simp: hitCorrect_def onShoot_def split: option.splits)

lemma hitWrong_cases:
  "hitWrong w f \<Longrightarrow>
     \<exists>i p a. firstHit (raycast f) 0 (robots w) = Some (i, p, a) \<and> a \<noteq> correctAnswer (robots w ! i) \<and>
       onShoot w f = resolveHit w f i a"
  by (auto simp: hitWrong_def onShoot_def split: option.splits)

lemma onShoot_correct:
  assumes "hitCorrect w f"
  shows "score (gs (onShoot w f)) = score (gs w) + 100 * combo (gs w)"
    and "kills (gs (onShoot w f)) = kills (gs w) + 1"
    and "combo (gs (onShoot w f)) = min (combo (gs w) + 1) 10"
    and "\<exists>i. hitIndex w f = Some i \<and> i < length (robots w) \<and> \<not> dying (robots w ! i)
           \<and> dying (robots (onShoot w f) ! i)"
proof -
  from hitCorrect_cases[OF assms] obtain i p where
    fh: "firstHit (raycast f) 0 (robots w) = Some (i, p, correctAnswer (robots w ! i))" and
    eq: "onShoot w f = resolveHit w f i (correctAnswer (robots w ! i))" by blast
  show "score (gs (onShoot w f)) = score (gs w) + 100 * combo (gs w)"
    by (simp add: eq resolveHit_correct)
  show "kills (gs (onShoot w f)) = kills (gs w) + 1"
    by (simp add: eq resolveHit_correct)
  show "combo (gs (onShoot w f)) = min (combo (gs w) + 1) 10"
    by (simp add: eq resolveHit_correct)
  from firstHit_bounds[OF fh] have lt: "i < length (robots w)" by simp
  from firstHit_target[OF fh] have nd: "\<not> dying (robots w ! i)" by simp
  have "dying (robots (onShoot w f) ! i)"
    using lt by (simp add: eq resolveHit_correct)
  with lt nd fh show "\<exists>i. hitIndex w f = Some i \<and> i < length (robots w) \<and> \<not> dying (robots w ! i)
           \<and> dying (robots (onShoot w f) ! i)"
    by (auto simp: hitIndex_def)
qed

lemma onShoot_wrong:
  assumes "hitWrong w f"
  shows "score (gs (onShoot w f)) = score (gs w)"
    and "kills (gs (onShoot w f)) = kills (gs w)"
    and "combo (gs (onShoot w f)) = 1"
  using hitWrong_cases[OF assms] by (auto simp: resolveHit_wrong)

lemma onShoot_combo_range:
  assumes "1 \<le> combo (gs w)" "combo (gs w) \<le> 10"
  shows "1 \<le> combo (gs (onShoot w f)) \<and> combo (gs (onShoot w f)) \<le> 10"
proof (cases "hitCorrect w f")
  case True
  from onShoot_correct(3)[OF True] assms show ?thesis by simp
next
  case False
  show ?thesis
  proof (cases "hitWrong w f")
    case True
    from onShoot_wrong(3)[OF True] show ?thesis by simp
  next
    case nw: False
    from False nw have "onShoot w f = w"
      by (auto simp: hitCorrect_def hitWrong_def onShoot_def split: option.splits)
    with assms show ?thesis by simp
  qed
qed

text \<open>
  Claim C1. A fire event whose hit zone holds the enemy's correct answer puts that enemy
  into the dying state, adds 100 times the combo held before the hit to the score, adds one
  kill and sets the combo to \<open>min (combo + 1) 10\<close>; a hit on a zone with another
  answer sets the combo to 1 and leaves score and kills alone. Three correct hits and one
  wrong hit from combo 1 give the combos 2, 3, 4, 1 and the score increments 100, 200, 300
  and 0. A combo in \<open>[1, 10]\<close> stays there.
\<close>

theorem onShoot_scoring:
  "(hitCorrect w f \<longrightarrow>
      (\<exists>i. hitIndex w f = Some i \<and> i < length (robots w) \<and> \<not> dying (robots w ! i)
           \<and> dying (robots (onShoot w f) ! i)) \<and>
      score (gs (onShoot w f)) = score (gs w) + 100 * combo (gs w) \<and>
      kills (gs (onShoot w f)) = kills (gs w) + 1 \<and>
      combo (gs (onShoot w f)) = min (combo (gs w) + 1) 10) \<and>
   (hitWrong w f \<longrightarrow>
      combo (gs (onShoot w f)) = 1 \<and>
      score (gs (onShoot w f)) = score (gs w) \<and>
      kills (gs (onShoot w f)) = kills (gs w)) \<and>
   (combo (gs w) = 1 \<and> hitCorrect w f1 \<and> hitCorrect (onShoot w f1) f2 \<and>
    hitCorrect (onShoot (onShoot w f1) f2) f3 \<and>
    hitWrong (onShoot (onShoot (onShoot w f1) f2) f3) f4 \<longrightarrow>
      combo (gs (onShoot w f1)) = 2 \<and>
      combo (gs (onShoot (onShoot w f1) f2)) = 3 \<and>
      combo (gs (onShoot (onShoot (onShoot w f1) f2) f3)) = 4 \<and>
      combo (gs (onShoot (onShoot (onShoot (onShoot w f1) f2) f3) f4)) = 1 \<and>
      score (gs (onShoot w f1)) = score (gs w) + 100 * 1 \<and>
      score (gs (onShoot (onShoot w f1) f2)) = score (gs (onShoot w f1)) + 100 * 2 \<and>
      score (gs (onShoot (onShoot (onShoot w f1) f2) f3)) =
        score (gs (onShoot (onShoot w f1) f2)) + 100 * 3 \<and>
      score (gs (onShoot (onShoot (onShoot (onShoot w f1) f2) f3) f4)) =
        score (gs (onShoot (onShoot (onShoot w f1) f2) f3))) \<and>
   (1 \<le> combo (gs w) \<and> combo (gs w) \<le> 10 \<longrightarrow>
      1 \<le> combo (gs (onShoot w f)) \<and> combo (gs (onShoot w f)) \<le> 10)"
proof -
  have seq: "combo (gs (onShoot w f1)) = 2 \<and>
      combo (gs (onShoot (onShoot w f1) f2)) = 3 \<and>
      combo (gs (onShoot (onShoot (onShoot w f1) f2) f3)) = 4 \<and>
      combo (gs (onShoot (onShoot (onShoot (onShoot w f1) f2) f3) f4)) = 1 \<and>
      score (gs (onShoot w f1)) = score (gs w) + 100 * 1 \<and>
      score (gs (onShoot (onShoot w f1) f2)) = score (gs (onShoot w f1)) + 100 * 2 \<and>
      score (gs (onShoot (onShoot (onShoot w f1) f2) f3)) =
        score (gs (onShoot (onShoot w f1) f2)) + 100 * 3 \<and>
      score (gs (onShoot (onShoot (onShoot (onShoot w f1) f2) f3) f4)) =
        score (gs (onShoot (onShoot (onShoot w f1) f2) f3))"
    if c: "combo (gs w) = 1" and h1: "hitCorrect w f1" and h2: "hitCorrect (onShoot w f1) f2"
      and h3: "hitCorrect (onShoot (onShoot w f1) f2) f3"
      and h4: "hitWrong (onShoot (onShoot (onShoot w f1) f2) f3) f4"
  proof -
    have c1: "combo (gs (onShoot w f1)) = 2"
      using onShoot_correct(3)[OF h1] c by simp
    have c2: "combo (gs (onShoot (onShoot w f1) f2)) = 3"
      using onShoot_correct(3)[OF h2] c1 by simp
    have c3: "combo (gs (onShoot (onShoot (onShoot w f1) f2) f3)) = 4"
      using onShoot_correct(3)[OF h3] c2 by simp
    show ?thesis
      using c c1 c2 c3 onShoot_correct(1)[OF h1] onShoot_correct(1)[OF h2]
        onShoot_correct(1)[OF h3] onShoot_wrong(1)[OF h4] onShoot_wrong(3)[OF h4]
      by simp
  qed
  show ?thesis
    using onShoot_correct[of w f] onShoot_wrong[of w f] onShoot_combo_range[of w f] seq
    by blast
qed

lemmas sample_defs = sample_world_def running_world_def initial_world_def sample_robot_def aim_def

theorem onShoot_scoring_witness:
  "combo (gs sample_world) = 1 \<and>
   hitCorrect sample_world (aim Chest) \<and>
   hitCorrect (onShoot sample_world (aim Chest)) (aim Chest) \<and>
   hitCorrect (onShoot (onShoot sample_world (aim Chest)) (aim Chest)) (aim Chest) \<and>
   hitWrong (onShoot (onShoot (onShoot sample_world (aim Chest)) (aim Chest)) (aim Chest)) (aim Head) \<and>
   hitIndex sample_world (aim Chest) = Some 0 \<and>
   dying (robots (onShoot sample_world (aim Chest)) ! 0) \<and>
   score (gs (onShoot sample_world (aim Chest))) = 100 \<and>
   kills (gs (onShoot sample_world (aim Chest))) = 1 \<and>
   combo (gs (onShoot sample_world (aim Chest))) = 2 \<and>
   combo (gs (onShoot (onShoot sample_world (aim Chest)) (aim Chest))) = 3 \<and>
   combo (gs (onShoot (onShoot (onShoot sample_world (aim Chest)) (aim Chest)) (aim Chest))) = 4 \<and>
   combo (gs (onShoot (onShoot (onShoot (onShoot sample_world (aim Chest)) (aim Chest)) (aim Chest)) (aim Head))) = 1 \<and>
   score (gs (onShoot (onShoot (onShoot (onShoot sample_world (aim Chest)) (aim Chest)) (aim Chest)) (aim Head))) = 600 \<and>
   kills (gs (onShoot (onShoot (onShoot (onShoot sample_world (aim Chest)) (aim Chest)) (aim Chest)) (aim Head))) = 3"
proof -
  have c: "combo (gs sample_world) = 1" "score (gs sample_world) = 0" "kills (gs sample_world) = 0"
    by (simp_all add: sample_defs)
  have h1: "hitCorrect sample_world (aim Chest)"
    by (simp add: hitCorrect_def checkHit_def sample_defs)
  have h2: "hitCorrect (onShoot sample_world (aim Chest)) (aim Chest)"
    by (simp add: hitCorrect_def onShoot_def resolveHit_def Let_def checkHit_def sample_defs)
  have h3: "hitCorrect (onShoot (onShoot sample_world (aim Chest)) (aim Chest)) (aim Chest)"
    by (simp add: hitCorrect_def onShoot_def resolveHit_def Let_def checkHit_def sample_defs)
  have h4: "hitWrong (onShoot (onShoot (onShoot sample_world (aim Chest)) (aim Chest)) (aim Chest)) (aim Head)"
    by (simp add: hitWrong_def onShoot_def resolveHit_def Let_def checkHit_def sample_defs)
  have i0: "hitIndex sample_world (aim Chest) = Some 0"
    by (simp add: hitIndex_def checkHit_def sample_defs)
  note t1 = onShoot_scoring[of sample_world "aim Chest" "aim Chest" "aim Chest" "aim Chest" "aim Head"]
  note t2 = onShoot_scoring[of "onShoot sample_world (aim Chest)" "aim Chest"]
  note t3 = onShoot_scoring[of "onShoot (onShoot sample_world (aim Chest)) (aim Chest)" "aim Chest"]
  note t4 = onShoot_scoring[of "onShoot (onShoot (onShoot sample_world (aim Chest)) (aim Chest)) (aim Chest)" "aim Head"]
  show ?thesis
    using c h1 h2 h3 h4 i0 t1 t2 t3 t4 by simp
qed

section \<open>One enemy per fire event\<close>









section \<open>Wave advance\<close>

lemma waveAdvance_effect:
  "wave (gs (waveAdvance w)) = wave (gs w) + 1"
  "health (gs (waveAdvance w)) = min (maxHealth (gs w)) (health (gs w) + 20)"
  "spawnInterval (waveAdvance w) = max 0.6 (spawnInterval w - 0.2)"
  by (simp_all add: waveAdvance_def Let_def)

lemma resolveHit_fifth_kill:
  assumes "a = correctAnswer (robots w ! i)" "(kills (gs w) + 1) mod 5 = 0"
  shows "wave (gs (resolveHit w f i a)) = wave (gs w) + 1"
    and "health (gs (resolveHit w f i a)) = min (maxHealth (gs w)) (health (gs w) + 20)"
    and "spawnInterval (resolveHit w f i a) = max 0.6 (spawnInterval w - 0.2)"
  using assms by (simp_all add: resolveHit_def Let_def waveAdvance_effect)

lemma resolveHit_basic_fifth_kill:
  assumes "a = correctAnswer (robots w ! i)" "(kills (gs w) + 1) mod 5 = 0"
  shows "wave (gs (resolveHit_basic w f i a)) = wave (gs w) + 1"
    and "health (gs (resolveHit_basic w f i a)) = health (gs w)"
    and "spawnInterval (resolveHit_basic w f i a) = max 0.8 (spawnInterval w - 0.2)"
    and "kills (gs (resolveHit_basic w f i a)) = kills (gs w) + 1"
  using assms by (simp_all add: resolveHit_basic_def Let_def)

lemma hitCorrect_basic_cases:
  "hitCorrect_basic w f \<Longrightarrow>
     \<exists>i. onShoot_basic w f = resolveHit_basic w f i (correctAnswer (robots w ! i))"
  by (auto simp: hitCorrect_basic_def onShoot_basic_def split: option.splits)

lemma hitCorrect_resolve:
  "hitCorrect w f \<Longrightarrow> \<exists>i. onShoot w f = resolveHit w f i (correctAnswer (robots w ! i))"
  by (auto simp: hitCorrect_def onShoot_def split: option.splits)

text \<open>
  Claim C2, as amended. A correct hit that makes the kill count a multiple of 5 adds one to
  the wave and sets \<open>spawnInterval\<close> to \<open>max floor (spawnInterval - 0.2)\<close>, with the
  floor 0.6 in the enhanced and 0.8 in the basic build. The enhanced build also heals the
  player to \<open>min maxHealth (health + 20)\<close>; the basic build leaves the health as it is.
\<close>

theorem wave_advance_on_fifth_kill:
  "(hitCorrect w f \<and> (kills (gs w) + 1) mod 5 = 0 \<longrightarrow>
      kills (gs (onShoot w f)) = kills (gs w) + 1 \<and>
      wave (gs (onShoot w f)) = wave (gs w) + 1 \<and>
      spawnInterval (onShoot w f) = max 0.6 (spawnInterval w - 0.2) \<and>
      0.6 \<le> spawnInterval (onShoot w f) \<and>
      health (gs (onShoot w f)) = min (maxHealth (gs w)) (health (gs w) + 20)) \<and>
   (hitCorrect_basic w f \<and> (kills (gs w) + 1) mod 5 = 0 \<longrightarrow>
      kills (gs (onShoot_basic w f)) = kills (gs w) + 1 \<and>
      wave (gs (onShoot_basic w f)) = wave (gs w) + 1 \<and>
      spawnInterval (onShoot_basic w f) = max 0.8 (spawnInterval w - 0.2) \<and>
      0.8 \<le> spawnInterval (onShoot_basic w f) \<and>
      health (gs (onShoot_basic w f)) = health (gs w))"
proof -
  have enhanced: "kills (gs (onShoot w f)) = kills (gs w) + 1 \<and>
      wave (gs (onShoot w f)) = wave (gs w) + 1 \<and>
      spawnInterval (onShoot w f) = max 0.6 (spawnInterval w - 0.2) \<and>
      0.6 \<le> spawnInterval (onShoot w f) \<and>
      health (gs (onShoot w f)) = min (maxHealth (gs w)) (health (gs w) + 20)"
    if h: "hitCorrect w f" and k: "(kills (gs w) + 1) mod 5 = 0"
  proof -
    from hitCorrect_resolve[OF h] obtain i where
      eq: "onShoot w f = resolveHit w f i (correctAnswer (robots w ! i))" by blast
    have "kills (gs (resolveHit w f i (correctAnswer (robots w ! i)))) = kills (gs w) + 1"
      by (simp add: resolveHit_def Let_def waveAdvance_def)
    with resolveHit_fifth_kill[where w=w and i=i and f=f, OF refl k] eq show ?thesis by simp
  qed
  have basic: "kills (gs (onShoot_basic w f)) = kills (gs w) + 1 \<and>
      wave (gs (onShoot_basic w f)) = wave (gs w) + 1 \<and>
      spawnInterval (onShoot_basic w f) = max 0.8 (spawnInterval w - 0.2) \<and>
      0.8 \<le> spawnInterval (onShoot_basic w f) \<and>
      health (gs (onShoot_basic w f)) = health (gs w)"
    if h: "hitCorrect_basic w f" and k: "(kills (gs w) + 1) mod 5 = 0"
  proof -
    from hitCorrect_basic_cases[OF h] obtain i where
      eq: "onShoot_basic w f = resolveHit_basic w f i (correctAnswer (robots w ! i))" by blast
    from resolveHit_basic_fifth_kill[where w=w and i=i and f=f, OF refl k] eq show ?thesis by simp
  qed
  show ?thesis
  proof (rule conjI; rule impI; elim conjE)
    assume "hitCorrect w f" "(kills (gs w) + 1) mod 5 = 0"
    then show "kills (gs (onShoot w f)) = kills (gs w) + 1 \<and>
      wave (gs (onShoot w f)) = wave (gs w) + 1 \<and>
      spawnInterval (onShoot w f) = max 0.6 (spawnInterval w - 0.2) \<and>
      0.6 \<le> spawnInterval (onShoot w f) \<and>
      health (gs (onShoot w f)) = min (maxHealth (gs w)) (health (gs w) + 20)"
      by (rule enhanced)
  next
    assume "hitCorrect_basic w f" "(kills (gs w) + 1) mod 5 = 0"
    then show "kills (gs (onShoot_basic w f)) = kills (gs w) + 1 \<and>
      wave (gs (onShoot_basic w f)) = wave (gs w) + 1 \<and>
      spawnInterval (onShoot_basic w f) = max 0.8 (spawnInterval w - 0.2) \<and>
      0.8 \<le> spawnInterval (onShoot_basic w f) \<and>
      health (gs (onShoot_basic w f)) = health (gs w)"
      by (rule basic)
  qed
qed

theorem wave_advance_on_fifth_kill_witness:
  "hitCorrect fifth_kill_world (aim Chest) \<and>
   hitCorrect_basic fifth_kill_world_basic (aim Chest) \<and>
   (kills (gs fifth_kill_world) + 1) mod 5 = 0 \<and>
   (kills (gs fifth_kill_world_basic) + 1) mod 5 = 0 \<and>
   wave (gs fifth_kill_world) = 1 \<and> kills (gs fifth_kill_world) = 4 \<and>
   kills (gs (onShoot fifth_kill_world (aim Chest))) = 5 \<and>
   wave (gs (onShoot fifth_kill_world (aim Chest))) = 2 \<and>
   spawnInterval fifth_kill_world = 2 \<and>
   spawnInterval (onShoot fifth_kill_world (aim Chest)) = 1.8 \<and>
   health (gs fifth_kill_world) = 70 \<and>
   health (gs (onShoot fifth_kill_world (aim Chest))) = 90 \<and>
   wave (gs (onShoot_basic fifth_kill_world_basic (aim Chest))) = 2 \<and>
   spawnInterval (onShoot_basic fifth_kill_world_basic (aim Chest)) = 1.8 \<and>
   health (gs (onShoot_basic fifth_kill_world_basic (aim Chest))) = 100"
proof -
  have h: "hitCorrect fifth_kill_world (aim Chest)"
    by (simp add: hitCorrect_def checkHit_def fifth_kill_world_def sample_defs)
  have hb: "hitCorrect_basic fifth_kill_world_basic (aim Chest)"
    by (simp add: hitCorrect_basic_def checkHit_def fifth_kill_world_basic_def sample_defs)
  have v: "kills (gs fifth_kill_world) = 4" "wave (gs fifth_kill_world) = 1"
    "spawnInterval fifth_kill_world = 2" "health (gs fifth_kill_world) = 70"
    "maxHealth (gs fifth_kill_world) = 100"
    by (simp_all add: fifth_kill_world_def sample_defs)
  have vb: "kills (gs fifth_kill_world_basic) = 4" "wave (gs fifth_kill_world_basic) = 1"
    "spawnInterval fifth_kill_world_basic = 2" "health (gs fifth_kill_world_basic) = 100"
    by (simp_all add: fifth_kill_world_basic_def sample_defs)
  note t = wave_advance_on_fifth_kill[of fifth_kill_world "aim Chest"]
  note tb = wave_advance_on_fifth_kill[of fifth_kill_world_basic "aim Chest"]
  from h hb v vb t tb show ?thesis by simp
qed

text \<open>
  The claim as stated fails in the basic build: the fifth kill at health 100 of 150 leaves
  the health at 100.
\<close>

theorem wave_bonus_counterexample:
  "hitCorrect_basic fifth_kill_world_basic (aim Chest) \<and>
   kills (gs fifth_kill_world_basic) = 4 \<and>
   kills (gs (onShoot_basic fifth_kill_world_basic (aim Chest))) = 5 \<and>
   health (gs fifth_kill_world_basic) = 100 \<and> maxHealth (gs fifth_kill_world_basic) = 150 \<and>
   health (gs (onShoot_basic fifth_kill_world_basic (aim Chest))) = 100 \<and>
   health (gs (onShoot_basic fifth_kill_world_basic (aim Chest)))
     \<noteq> min (maxHealth (gs fifth_kill_world_basic)) (health (gs fifth_kill_world_basic) + 20)"
  by (simp add: hitCorrect_basic_def onShoot_basic_def resolveHit_basic_def Let_def checkHit_def
      fifth_kill_world_basic_def sample_defs)

section \<open>Question binding\<close>

































lemma question_math_rolls:
  "generateQuestion ''math'' 1 [0, 3 / 10, 2 / 5, 7 / 10, 1 / 5, 0, 0]
     = Some ((''4 + 5 = ?'', Num 9, \<lparr>head = Num 11, chest = Num 6, knee = Num 9\<rparr>), [])"
proof -
  have w: "wrongLoop 9 [] [7 / 10, 1 / 5, 0, 0] = Some ([11, 6], [0, 0])"
    by (simp add: wrongLoop.simps randInt_def)
  have m: "MathGenerator_generate 1 [0, 3 / 10, 2 / 5, 7 / 10, 1 / 5, 0, 0]
     = Some (\<lparr>g_question = ''4 + 5 = ?'', g_answer = Num 9, g_wrongAnswers = [Num 11, Num 6]\<rparr>, [0, 0])"
    by (simp add: MathGenerator_generate_def math_operations_def math_maxNum_def math_operands_def
        randInt_def show_int_def Let_def w)
  show ?thesis
    by (simp add: generateQuestion_def m swap_def randInt_def)
qed


lemma forward_at_start:
  "vnormalize ((cameraDirection 0 0)\<lparr>vy := 0\<rparr>) = \<lparr>vx = 0, vy = 0, vz = - 1\<rparr>"
  by (simp add: vnormalize_def cameraDirection_def vlength_def multiplyScalar_def)

lemma Robot_new_math_rolls:
  "Robot_new None (gs running_world) (camera running_world) 0 0 math_rolls = Some (math_robot, [])"
  by (simp add: Robot_new_def typePool_def randInt_def forward_at_start question_math_rolls
      applyAxisAngleY_def clamp_def robot_boundaryLimit_def running_world_def initial_world_def
      math_rolls_def math_robot_def)




section \<open>Arena bounds\<close>

lemma clamp_bounds:
  "0 \<le> l \<Longrightarrow> - l \<le> clamp l v \<and> clamp l v \<le> l"
  by (auto simp: clamp_def)

lemma clamp_robot: "- 45 \<le> clamp robot_boundaryLimit v \<and> clamp robot_boundaryLimit v \<le> 45"
  using clamp_bounds[of robot_boundaryLimit v] by (simp add: robot_boundaryLimit_def)

lemma clamp_player: "- 35 \<le> clamp player_boundaryLimit v \<and> clamp player_boundaryLimit v \<le> 35"
  using clamp_bounds[of player_boundaryLimit v] by (simp add: player_boundaryLimit_def)

lemma withinLimit_clamped:
  "withinLimit robot_boundaryLimit
     \<lparr>vx = clamp robot_boundaryLimit a, vy = b, vz = clamp robot_boundaryLimit c\<rparr>"
  using clamp_robot[of a] clamp_robot[of c]
  by (simp add: withinLimit_def robot_boundaryLimit_def)

lemma withinLimit_vy [simp]:
  "withinLimit l (p\<lparr>vy := y\<rparr>) = withinLimit l p"
  by (simp add: withinLimit_def)

lemma Robot_new_within:
  assumes "Robot_new type g cam yw ptch rs = Some (r, rs')"
  shows "withinLimit robot_boundaryLimit (position r)"
proof -
  from assms obtain a c where "position r =
      \<lparr>vx = clamp robot_boundaryLimit a, vy = 0, vz = clamp robot_boundaryLimit c\<rparr>"
    by (auto simp: Robot_new_def Let_def split: Option.bind_splits)
  then show ?thesis by (simp add: withinLimit_clamped)
qed

lemma Robot_new_basic_within:
  assumes "Robot_new_basic type g cam rs = Some (r, rs')"
  shows "withinLimit robot_boundaryLimit (position r)"
proof -
  from assms obtain a c where "position r =
      \<lparr>vx = clamp robot_boundaryLimit a, vy = 0, vz = clamp robot_boundaryLimit c\<rparr>"
    by (auto simp: Robot_new_basic_def Let_def split: Option.bind_splits)
  then show ?thesis by (simp add: withinLimit_clamped)
qed

lemma attackPlayer_within:
  "withinLimit robot_boundaryLimit (position r) \<Longrightarrow>
     withinLimit robot_boundaryLimit (position (snd (attackPlayer cam rolls (g, r))))"
  by (simp add: attackPlayer_def Let_def withinLimit_clamped)

lemma attackPlayer_respawn_within:
  "isRunning g \<Longrightarrow> 0 < health g - damage r \<Longrightarrow>
     withinLimit robot_boundaryLimit (position (snd (attackPlayer cam rolls (g, r))))"
  by (simp add: attackPlayer_def Let_def withinLimit_clamped)

lemma Robot_update_within:
  assumes "dying r \<longrightarrow> withinLimit robot_boundaryLimit (position r)"
  shows "withinLimit robot_boundaryLimit (position (snd (Robot_update deltaTime cam rolls (g, r))))"
proof (cases "dying r")
  case True
  with assms show ?thesis by (simp add: Robot_update_def Let_def)
next
  case False
  then show ?thesis
    by (simp add: Robot_update_def Let_def attackPlayer_within withinLimit_clamped)
qed

lemma updateRobots_within:
  "\<forall>r \<in> set rs. withinLimit robot_boundaryLimit (position r) \<Longrightarrow>
     \<forall>r \<in> set (snd (updateRobots deltaTime cam rolls i g rs)).
        withinLimit robot_boundaryLimit (position r)"
proof (induction rs arbitrary: i g)
  case Nil
  then show ?case by simp
next
  case (Cons r rs)
  obtain g1 r1 where u: "Robot_update deltaTime cam (rolls i) (g, r) = (g1, r1)"
    by (cases "Robot_update deltaTime cam (rolls i) (g, r)")
  obtain g2 rs1 where v: "updateRobots deltaTime cam rolls (Suc i) g1 rs = (g2, rs1)"
    by (cases "updateRobots deltaTime cam rolls (Suc i) g1 rs")
  from Cons.prems have "withinLimit robot_boundaryLimit (position r)" by simp
  from Robot_update_within[of r deltaTime cam "rolls i" g] this u
  have r1: "withinLimit robot_boundaryLimit (position r1)" by simp
  from Cons.prems have "\<forall>r \<in> set rs. withinLimit robot_boundaryLimit (position r)" by simp
  from Cons.IH[OF this, of "Suc i" g1] v
  have "\<forall>r \<in> set rs1. withinLimit robot_boundaryLimit (position r)" by simp
  with r1 show ?case by (simp add: u v)
qed

lemma updatePlayerMovement_camera:
  "\<exists>a c y. camera (updatePlayerMovement f w) =
      \<lparr>vx = clamp player_boundaryLimit a, vy = y, vz = clamp player_boundaryLimit c\<rparr>"
proof -
  have "camera (updatePlayerMovement f w) =
      \<lparr>vx = vx (camera (updatePlayerMovement f w)), vy = vy (camera (updatePlayerMovement f w)),
       vz = vz (camera (updatePlayerMovement f w))\<rparr>" by simp
  moreover have "\<exists>a. vx (camera (updatePlayerMovement f w)) = clamp player_boundaryLimit a"
    by (auto simp: updatePlayerMovement_def Let_def)
  moreover have "\<exists>c. vz (camera (updatePlayerMovement f w)) = clamp player_boundaryLimit c"
    by (auto simp: updatePlayerMovement_def Let_def)
  ultimately show ?thesis by metis
qed

lemma updatePlayerMovement_within:
  "withinLimit player_boundaryLimit (camera (updatePlayerMovement f w))"
proof -
  from updatePlayerMovement_camera[of f w] obtain a c y where
    "camera (updatePlayerMovement f w) =
      \<lparr>vx = clamp player_boundaryLimit a, vy = y, vz = clamp player_boundaryLimit c\<rparr>" by blast
  with clamp_player[of a] clamp_player[of c] show ?thesis
    by (simp add: withinLimit_def player_boundaryLimit_def)
qed

lemma updatePlayerMovement_robots [simp]:
  "robots (updatePlayerMovement f w) = robots w"
  "gs (updatePlayerMovement f w) = gs w"
  "pickups (updatePlayerMovement f w) = pickups w"
  by (simp_all add: updatePlayerMovement_def Let_def)

lemma spawnStep_facts:
  assumes "spawnStep f w = Some w1"
  shows "camera w1 = camera w" and "gs w1 = gs w" and "pickups w1 = pickups w"
    and "robots w1 = robots w \<or>
         (\<exists>r rest. Robot_new None (gs w) (camera w) (yaw w) (pitch w) (spawnRolls f) = Some (r, rest)
            \<and> robots w1 = robots w @ [r])"
  using assms by (auto simp: spawnStep_def Let_def split: if_splits option.splits)

lemma robotStep_facts:
  "camera (robotStep f w) = camera w"
  "pickups (robotStep f w) = pickups w"
  "robots (robotStep f w) = filter alive (snd (updateRobots (dt f) (camera w) (respawnRolls f) 0 (gs w) (robots w)))"
  "gs (robotStep f w) = fst (updateRobots (dt f) (camera w) (respawnRolls f) 0 (gs w) (robots w))"
  by (simp_all add: robotStep_def split: prod.splits)

lemma effectStep_facts [simp]:
  "camera (effectStep f w) = camera w"
  "robots (effectStep f w) = robots w"
  "pickups (effectStep f w) = pickups w"
  "gs (effectStep f w) = gs w"
  by (simp_all add: effectStep_def)

lemma pickupStep_facts:
  "camera (pickupStep f w) = camera w"
  "robots (pickupStep f w) = robots w"
  "pickups (pickupStep f w) = filter (\<lambda>p. \<not> collected p) (snd (updatePickups (dt f) (camera w) (gs w) (pickups w)))"
  "gs (pickupStep f w) = fst (updatePickups (dt f) (camera w) (gs w) (pickups w))"
  by (simp_all add: pickupStep_def split: prod.splits)

lemma animate_running:
  assumes "animate f w = Some w'" "\<not> isPaused (gs w)" "isRunning (gs w)"
  shows "\<exists>w1. spawnStep f (updatePlayerMovement f w) = Some w1 \<and>
           w' = pickupStep f (effectStep f (robotStep f w1))"
  using assms by (auto simp: animate_def split: option.splits)

lemma animate_idle:
  assumes "animate f w = Some w'" "isPaused (gs w) \<or> \<not> isRunning (gs w)"
  shows "w' = w"
  using assms by (auto simp: animate_def split: if_splits)

lemma animate_within:
  assumes an: "animate f w = Some w'"
    and inv: "\<forall>r \<in> set (robots w). withinLimit robot_boundaryLimit (position r)"
  shows "(\<forall>r \<in> set (robots w'). withinLimit robot_boundaryLimit (position r)) \<and>
         (isRunning (gs w) \<and> \<not> isPaused (gs w) \<longrightarrow> withinLimit player_boundaryLimit (camera w'))"
proof (cases "\<not> isPaused (gs w) \<and> isRunning (gs w)")
  case False
  with animate_idle[OF an] inv show ?thesis by auto
next
  case True
  from animate_running[OF an] True obtain w1 where
    sp: "spawnStep f (updatePlayerMovement f w) = Some w1" and
    w': "w' = pickupStep f (effectStep f (robotStep f w1))" by blast
  from spawnStep_facts(1)[OF sp] have cam: "camera w1 = camera (updatePlayerMovement f w)" .
  from spawnStep_facts(4)[OF sp] inv Robot_new_within
  have inv1: "\<forall>r \<in> set (robots w1). withinLimit robot_boundaryLimit (position r)"
    by auto
  have "camera w' = camera w1"
    by (simp add: w' pickupStep_facts robotStep_facts)
  with cam updatePlayerMovement_within[of f w]
  have p: "withinLimit player_boundaryLimit (camera w')" by simp
  have "robots w' = filter alive (snd (updateRobots (dt f) (camera w1) (respawnRolls f) 0 (gs w1) (robots w1)))"
    by (simp add: w' pickupStep_facts robotStep_facts)
  with updateRobots_within[OF inv1, of "dt f" "camera w1" "respawnRolls f" 0 "gs w1"]
  have "\<forall>r \<in> set (robots w'). withinLimit robot_boundaryLimit (position r)" by simp
  with p show ?thesis by simp
qed

lemma startGame_within:
  assumes "startGame w rs = Some w'"
  shows "(\<forall>r \<in> set (robots w'). withinLimit robot_boundaryLimit (position r)) \<and>
         withinLimit player_boundaryLimit (camera w')"
proof -
  from assms obtain r g cam yw ptch rest where
    n: "Robot_new None g cam yw ptch rs = Some (r, rest)" and
    w': "robots w' = [r]" "camera w' = \<lparr>vx = 0, vy = 2, vz = 0\<rparr>"
    by (auto simp: startGame_def Let_def split: option.splits)
  from Robot_new_within[OF n] w' show ?thesis
    by (simp add: withinLimit_def player_boundaryLimit_def)
qed

text \<open>
  Claim C6. Every update leaves the positions inside the arena bounds: a robot is inside the
  robot bound after its constructor, after a respawn by \<open>attackPlayer\<close> and after
  \<open>update\<close> (which moves and clamps a robot that is not dying, and does not move a dying
  one); the camera is inside the player bound after \<open>updatePlayerMovement\<close>. So a frame
  of \<open>animate\<close> keeps all robots inside the robot bound and leaves the player inside the
  player bound, and \<open>startGame\<close> starts there.
\<close>

theorem positions_within_bounds:
  "(Robot_new type g cam yw ptch rs = Some (r, rs') \<longrightarrow>
      withinLimit robot_boundaryLimit (position r)) \<and>
   (Robot_new_basic type g cam rs = Some (r, rs') \<longrightarrow>
      withinLimit robot_boundaryLimit (position r)) \<and>
   (isRunning g \<and> 0 < health g - damage r0 \<longrightarrow>
      withinLimit robot_boundaryLimit (position (snd (attackPlayer cam rolls (g, r0))))) \<and>
   (withinLimit robot_boundaryLimit (position r0) \<longrightarrow>
      withinLimit robot_boundaryLimit (position (snd (attackPlayer cam rolls (g, r0))))) \<and>
   ((dying r0 \<longrightarrow> withinLimit robot_boundaryLimit (position r0)) \<longrightarrow>
      withinLimit robot_boundaryLimit (position (snd (Robot_update deltaTime cam rolls (g, r0))))) \<and>
   withinLimit player_boundaryLimit (camera (updatePlayerMovement f w)) \<and>
   (animate f w = Some w' \<and> (\<forall>x \<in> set (robots w). withinLimit robot_boundaryLimit (position x)) \<longrightarrow>
      (\<forall>x \<in> set (robots w'). withinLimit robot_boundaryLimit (position x)) \<and>
      (isRunning (gs w) \<and> \<not> isPaused (gs w) \<longrightarrow> withinLimit player_boundaryLimit (camera w'))) \<and>
   (startGame w rs = Some w' \<longrightarrow>
      (\<forall>x \<in> set (robots w'). withinLimit robot_boundaryLimit (position x)) \<and>
      withinLimit player_boundaryLimit (camera w'))"
  using Robot_new_within[of type g cam yw ptch rs r rs']
    Robot_new_basic_within[of type g cam rs r rs']
    attackPlayer_respawn_within[of g r0 cam rolls]
    attackPlayer_within[of r0 cam rolls g]
    Robot_update_within[of r0 deltaTime cam rolls g]
    updatePlayerMovement_within[of f w]
    animate_within[of f w w']
    startGame_within[of w rs w']
  by simp

lemma question_basic_rolls:
  "generateMathQuestion_basic [0, 3 / 10, 2 / 5, 7 / 10, 1 / 5, 0, 0]
     = Some ((''7 + 9 = ?'', Num 16, \<lparr>head = Num 18, chest = Num 13, knee = Num 16\<rparr>), [])"
proof -
  have w: "wrongLoop 16 [] [7 / 10, 1 / 5, 0, 0] = Some ([18, 13], [0, 0])"
    by (simp add: wrongLoop.simps randInt_def)
  show ?thesis
    by (simp add: generateMathQuestion_basic_def math_operands_basic_def randInt_def
        show_int_def Let_def w swap_def)
qed

lemma Robot_new_basic_rolls:
  "Robot_new_basic None (gs started_world_basic) \<lparr>vx = 0, vy = 2, vz = 0\<rparr> basic_rolls
     = Some (basic_robot, [])"
  by (simp add: Robot_new_basic_def randInt_def question_basic_rolls clamp_def
      robot_boundaryLimit_def started_world_basic_def initial_world_basic_def initial_world_def
      basic_rolls_def basic_robot_def)

lemma startGame_initial:
  "startGame initial_world math_rolls = Some started_world"
proof -
  have "Robot_new None (gs running_world) \<lparr>vx = 0, vy = 2, vz = 0\<rparr> 0 0 math_rolls
          = Some (math_robot, [])"
    using Robot_new_math_rolls by (simp add: running_world_def initial_world_def)
  then show ?thesis
    by (simp add: startGame_def Let_def started_world_def running_world_def initial_world_def)
qed

lemma startGame_basic_initial:
  "startGame_basic initial_world_basic basic_rolls = Some started_world_basic"
proof -
  have "Robot_new_basic None (gs started_world_basic) \<lparr>vx = 0, vy = 2, vz = 0\<rparr> basic_rolls
          = Some (basic_robot, [])"
    by (rule Robot_new_basic_rolls)
  then show ?thesis
    by (simp add: startGame_basic_def Let_def started_world_basic_def initial_world_basic_def
        initial_world_def)
qed

lemma animate_idle_frame:
  "animate idle_frame sample_world = Some (the (animate idle_frame sample_world))"
  by (simp add: animate_def spawnStep_def Let_def idle_frame_def sample_world_def
      running_world_def initial_world_def updatePlayerMovement_def)

theorem positions_within_bounds_witness:
  "Robot_new None (gs running_world) (camera running_world) 0 0 math_rolls = Some (math_robot, []) \<and>
   withinLimit robot_boundaryLimit (position math_robot) \<and>
   Robot_new_basic None (gs started_world_basic) \<lparr>vx = 0, vy = 2, vz = 0\<rparr> basic_rolls
     = Some (basic_robot, []) \<and>
   withinLimit robot_boundaryLimit (position basic_robot) \<and>
   isRunning (gs running_world) \<and> 0 < health (gs running_world) - damage sample_robot \<and>
   withinLimit robot_boundaryLimit
     (position (snd (attackPlayer (camera running_world) (0, 0) (gs running_world, sample_robot)))) \<and>
   withinLimit robot_boundaryLimit (position far_robot) \<and>
   dying (far_robot\<lparr>dying := True\<rparr>) \<and>
   withinLimit robot_boundaryLimit (position (far_robot\<lparr>dying := True\<rparr>)) \<and>
   withinLimit robot_boundaryLimit
     (position (snd (Robot_update 1 (camera running_world) (0, 0)
                       (gs running_world, far_robot\<lparr>dying := True\<rparr>)))) \<and>
   animate idle_frame sample_world = Some (the (animate idle_frame sample_world)) \<and>
   list_all (\<lambda>x. withinLimit robot_boundaryLimit (position x)) (robots sample_world) \<and>
   isRunning (gs sample_world) \<and> \<not> isPaused (gs sample_world) \<and>
   list_all (\<lambda>x. withinLimit robot_boundaryLimit (position x))
     (robots (the (animate idle_frame sample_world))) \<and>
   withinLimit player_boundaryLimit (camera (the (animate idle_frame sample_world))) \<and>
   startGame initial_world math_rolls = Some started_world \<and>
   list_all (\<lambda>x. withinLimit robot_boundaryLimit (position x)) (robots started_world) \<and>
   withinLimit player_boundaryLimit (camera started_world)"
proof -
  have h1: "Robot_new None (gs running_world) (camera running_world) 0 0 math_rolls
      = Some (math_robot, [])"
    by (rule Robot_new_math_rolls)
  have h2: "Robot_new_basic None (gs started_world_basic) \<lparr>vx = 0, vy = 2, vz = 0\<rparr> basic_rolls
     = Some (basic_robot, [])"
    by (rule Robot_new_basic_rolls)
  have h3: "isRunning (gs running_world)" "0 < health (gs running_world) - damage sample_robot"
    by (simp_all add: running_world_def initial_world_def sample_robot_def)
  have h4: "withinLimit robot_boundaryLimit (position far_robot)"
    "dying (far_robot\<lparr>dying := True\<rparr>)"
    "withinLimit robot_boundaryLimit (position (far_robot\<lparr>dying := True\<rparr>))"
    by (simp_all add: far_robot_def withinLimit_def robot_boundaryLimit_def)
  have h5: "animate idle_frame sample_world = Some (the (animate idle_frame sample_world))"
    by (rule animate_idle_frame)
  have h6: "\<forall>x \<in> set (robots sample_world). withinLimit robot_boundaryLimit (position x)"
    "isRunning (gs sample_world)" "\<not> isPaused (gs sample_world)"
    by (simp_all add: sample_world_def running_world_def initial_world_def sample_robot_def
        withinLimit_def robot_boundaryLimit_def)
  have h7: "startGame initial_world math_rolls = Some started_world"
    by (rule startGame_initial)
  note t1 = positions_within_bounds[where type=None and g="gs running_world"
      and cam="camera running_world" and yw=0 and ptch=0 and rs=math_rolls and r=math_robot
      and rs'="[]" and ?r0.0=sample_robot and rolls="(0, 0)" and deltaTime=1
      and f=idle_frame and w=sample_world and w'="the (animate idle_frame sample_world)"]
  note t2 = positions_within_bounds[where type=None and g="gs started_world_basic"
      and cam="\<lparr>vx = 0, vy = 2, vz = 0\<rparr>" and rs=basic_rolls and r=basic_robot
      and rs'="[]"]
  note t3 = positions_within_bounds[where rs=math_rolls and w=initial_world
      and w'=started_world]
  note t4 = positions_within_bounds[where g="gs running_world"
      and cam="camera running_world" and ?r0.0="far_robot\<lparr>dying := True\<rparr>"
      and rolls="(0, 0)" and deltaTime=1]
  from t1 h1 have c1: "withinLimit robot_boundaryLimit (position math_robot)" by simp
  from t2 h2 have c2: "withinLimit robot_boundaryLimit (position basic_robot)" by simp
  from t1 h3 have c3: "withinLimit robot_boundaryLimit
     (position (snd (attackPlayer (camera running_world) (0, 0) (gs running_world, sample_robot))))"
    by simp
  from t4 h4 have c4: "withinLimit robot_boundaryLimit
     (position (snd (Robot_update 1 (camera running_world) (0, 0)
                       (gs running_world, far_robot\<lparr>dying := True\<rparr>))))"
    by simp
  from t1 h5 h6 have c5: "(\<forall>x \<in> set (robots (the (animate idle_frame sample_world))).
      withinLimit robot_boundaryLimit (position x)) \<and>
   withinLimit player_boundaryLimit (camera (the (animate idle_frame sample_world)))"
    by simp
  from t3 h7 have c6: "(\<forall>x \<in> set (robots started_world). withinLimit robot_boundaryLimit (position x)) \<and>
   withinLimit player_boundaryLimit (camera started_world)"
    by simp
  from h1 h2 h3 h4 h5 h6 h7 c1 c2 c3 c4 c5 c6 show ?thesis by (simp add: list_all_iff)
qed

text \<open>
  Claim C5, as amended. The bound that clamps the player (35) is smaller than the bound
  that clamps the robots (45): after \<open>updatePlayerMovement\<close> the player's ground
  coordinates lie in \<open>[-35, 35]\<close>, strictly inside the robots' interval \<open>[-45, 45]\<close>, so
  robots can stand closer to the walls than the player can.
\<close>

theorem player_bound_inside_robot_bound:
  "player_boundaryLimit < robot_boundaryLimit \<and>
   - robot_boundaryLimit < - player_boundaryLimit \<and>
   - player_boundaryLimit \<le> vx (camera (updatePlayerMovement f w)) \<and>
   vx (camera (updatePlayerMovement f w)) \<le> player_boundaryLimit \<and>
   - player_boundaryLimit \<le> vz (camera (updatePlayerMovement f w)) \<and>
   vz (camera (updatePlayerMovement f w)) \<le> player_boundaryLimit \<and>
   - robot_boundaryLimit \<le> clamp robot_boundaryLimit v \<and>
   clamp robot_boundaryLimit v \<le> robot_boundaryLimit \<and>
   clamp robot_boundaryLimit robot_boundaryLimit = robot_boundaryLimit \<and>
   clamp robot_boundaryLimit (- robot_boundaryLimit) = - robot_boundaryLimit"
  using updatePlayerMovement_within[of f w] clamp_robot[of v]
  by (simp add: withinLimit_def player_boundaryLimit_def robot_boundaryLimit_def clamp_def)

theorem player_bound_inside_robot_bound_witness:
  "player_boundaryLimit = 35 \<and> robot_boundaryLimit = 45 \<and>
   vx (camera (updatePlayerMovement (idle_frame\<lparr>key_right := True\<rparr>)
         (running_world\<lparr>camera := \<lparr>vx = 35, vy = 2, vz = 0\<rparr>\<rparr>))) \<le> player_boundaryLimit \<and>
   - player_boundaryLimit \<le> vz (camera (updatePlayerMovement (idle_frame\<lparr>key_right := True\<rparr>)
         (running_world\<lparr>camera := \<lparr>vx = 35, vy = 2, vz = 0\<rparr>\<rparr>))) \<and>
   clamp robot_boundaryLimit 50 \<le> robot_boundaryLimit \<and>
   clamp robot_boundaryLimit robot_boundaryLimit = robot_boundaryLimit"
  using player_bound_inside_robot_bound[of "idle_frame\<lparr>key_right := True\<rparr>"
      "running_world\<lparr>camera := \<lparr>vx = 35, vy = 2, vz = 0\<rparr>\<rparr>" 50]
  by (simp add: player_boundaryLimit_def robot_boundaryLimit_def)

text \<open>
  The claim as stated fails: the player's bound is the smaller one. A robot 40 units out
  stays there when updated, while the player's clamp maps 40 to 35.
\<close>

theorem player_bound_counterexample:
  "\<not> robot_boundaryLimit < player_boundaryLimit \<and>
   vx (position (snd (Robot_update 0 (camera running_world) (0, 0) (gs running_world, far_robot)))) = 40 \<and>
   clamp player_boundaryLimit 40 = 35 \<and>
   vx (camera (updatePlayerMovement (idle_frame\<lparr>key_right := True\<rparr>)
         (running_world\<lparr>camera := \<lparr>vx = 35, vy = 2, vz = 0\<rparr>\<rparr>))) = 35"
proof -
  have a: "\<not> robot_boundaryLimit < player_boundaryLimit" "clamp player_boundaryLimit 40 = 35"
    by (simp_all add: robot_boundaryLimit_def player_boundaryLimit_def clamp_def)
  have b: "vx (position (snd (Robot_update 0 (camera running_world) (0, 0) (gs running_world, far_robot)))) = 40"
    by (simp add: Robot_update_def Let_def far_robot_def sample_robot_def multiplyScalar_def
        clamp_def robot_boundaryLimit_def vlength_def running_world_def initial_world_def)
  have fwd: "vnormalize ((cameraDirection 0 0)\<lparr>vy := 0\<rparr>) = \<lparr>vx = 0, vy = 0, vz = - 1\<rparr>"
    by (rule forward_at_start)
  have rgt: "vnormalize (crossUp \<lparr>vx = 0, vy = 0, vz = - 1\<rparr>) = \<lparr>vx = 1, vy = 0, vz = 0\<rparr>"
    by (simp add: vnormalize_def crossUp_def vlength_def multiplyScalar_def)
  have mv: "vnormalize \<lparr>vx = 1, vy = 0, vz = 0\<rparr> = \<lparr>vx = 1, vy = 0, vz = 0\<rparr>"
    by (simp add: vnormalize_def vlength_def multiplyScalar_def)
  have c: "vx (camera (updatePlayerMovement (idle_frame\<lparr>key_right := True\<rparr>)
         (running_world\<lparr>camera := \<lparr>vx = 35, vy = 2, vz = 0\<rparr>\<rparr>))) = 35"
    by (simp add: updatePlayerMovement_def Let_def idle_frame_def running_world_def
        initial_world_def fwd rgt mv addScaled_def multiplyScalar_def clamp_def
        player_boundaryLimit_def moveSpeed_def)
  from a b c show ?thesis by simp
qed

section \<open>Attack cooldown\<close>

lemma spaced_Cons:
  "(\<forall>y \<in> set xs. x + d \<le> y) \<Longrightarrow> spaced d xs \<Longrightarrow> spaced d (x # xs)"
  by (cases xs) simp_all

lemma attackPlayer_cases:
  "attackPlayer cam rolls (g, r) = (g', r') \<Longrightarrow>
     (\<not> isRunning g \<and> g' = g \<and> r' = r) \<or>
     (isRunning g \<and> health g' = health g - damage r \<and> attackCooldown r' = 1.5 \<and>
        (health g' \<le> 0 \<longrightarrow> \<not> isRunning g'))"
  by (auto simp: attackPlayer_def Let_def endGame_def split: if_splits)

text \<open>The cooldown after the decrement at the top of \<open>update\<close>.\<close>

lemma Robot_update_cooldown:
  assumes u: "Robot_update deltaTime cam rolls (g, r) = (g', r')" and nd: "\<not> dying r"
  shows "(health g' = health g \<or> attackCooldown r' = 1.5) \<and>
         (attackCooldown r' = 1.5 \<and> health g' = health g - damage r \<and> isRunning g \<and>
            (if attackCooldown r > 0 then attackCooldown r - deltaTime else attackCooldown r) \<le> 0
          \<or> g' = g \<and> attackCooldown r' =
            (if attackCooldown r > 0 then attackCooldown r - deltaTime else attackCooldown r))"
  using u nd
  by (auto simp: Robot_update_def attackPlayer_def endGame_def Let_def split: if_splits)

lemma Robot_update_dying:
  "dying r \<Longrightarrow> Robot_update deltaTime cam rolls (g, r) = (g', r') \<Longrightarrow>
     g' = g \<and> attackCooldown r' = attackCooldown r"
  by (auto simp: Robot_update_def Let_def split: if_splits)

lemma Robot_update_step:
  assumes u: "Robot_update deltaTime cam rolls (g, r) = (g', r')"
    and dt: "0 \<le> deltaTime"
    and inv: "la + 1.5 \<le> t + max 0 (attackCooldown r)"
  shows "(health g' < health g \<longrightarrow> la + 1.5 \<le> t + deltaTime \<and> attackCooldown r' = 1.5) \<and>
         la + 1.5 \<le> t + deltaTime + max 0 (attackCooldown r')"
proof (cases "dying r")
  case True
  from Robot_update_dying[OF True u] dt inv show ?thesis by auto
next
  case False
  from Robot_update_cooldown[OF u False] dt inv show ?thesis
    by (auto split: if_splits)
qed

lemma damageTimes_spaced_from:
  assumes "\<forall>f \<in> set fs. 0 \<le> rf_dt f" and "la + 1.5 \<le> t + max 0 (attackCooldown r)"
  shows "spaced 1.5 (damageTimes t r fs) \<and> (\<forall>x \<in> set (damageTimes t r fs). la + 1.5 \<le> x)"
  using assms
proof (induction fs arbitrary: t r la)
  case Nil
  then show ?case by simp
next
  case (Cons f fs)
  obtain g' r' where u: "Robot_update (rf_dt f) (rf_camera f) (rf_rolls f) (rf_gs f, r) = (g', r')"
    by (cases "Robot_update (rf_dt f) (rf_camera f) (rf_rolls f) (rf_gs f, r)")
  from Cons.prems(1) have dt: "0 \<le> rf_dt f" and rest: "\<forall>f \<in> set fs. 0 \<le> rf_dt f" by simp_all
  note st = Robot_update_step[OF u dt Cons.prems(2)]
  show ?case
  proof (cases "health g' < health (rf_gs f)")
    case True
    with st have now: "la + 1.5 \<le> t + rf_dt f" and cd: "attackCooldown r' = 1.5" by simp_all
    from cd have "(t + rf_dt f) + 1.5 \<le> (t + rf_dt f) + max 0 (attackCooldown r')" by simp
    from Cons.IH[OF rest this]
    have ih: "spaced 1.5 (damageTimes (t + rf_dt f) r' fs)"
      "\<forall>x \<in> set (damageTimes (t + rf_dt f) r' fs). (t + rf_dt f) + 1.5 \<le> x" by simp_all
    from spaced_Cons[OF ih(2) ih(1)] ih(2) now True u show ?thesis by auto
  next
    case False
    from st have "la + 1.5 \<le> (t + rf_dt f) + max 0 (attackCooldown r')" by simp
    from Cons.IH[OF rest this] False u show ?thesis by simp
  qed
qed

lemma damageTimes_spaced:
  assumes "\<forall>f \<in> set fs. 0 \<le> rf_dt f"
  shows "spaced 1.5 (damageTimes t r fs)"
proof -
  have "(t + max 0 (attackCooldown r) - 1.5) + 1.5 \<le> t + max 0 (attackCooldown r)" by simp
  from damageTimes_spaced_from[OF assms this] show ?thesis by simp
qed

lemma Robot_update_cooldown_floor:
  assumes "0 < attackCooldown r"
  shows "- deltaTime < attackCooldown (snd (Robot_update deltaTime cam rolls (g, r))) \<or>
         0 < attackCooldown (snd (Robot_update deltaTime cam rolls (g, r)))"
proof (cases "dying r")
  case True
  obtain g' r' where u: "Robot_update deltaTime cam rolls (g, r) = (g', r')"
    by (cases "Robot_update deltaTime cam rolls (g, r)")
  from Robot_update_dying[OF True u] assms u show ?thesis by simp
next
  case False
  obtain g' r' where u: "Robot_update deltaTime cam rolls (g, r) = (g', r')"
    by (cases "Robot_update deltaTime cam rolls (g, r)")
  from Robot_update_cooldown[OF u False] assms u show ?thesis by auto
qed

text \<open>
  Claim C7, as amended. While a robot is not dying, each \<open>update\<close> subtracts the frame's
  delta from an \<open>attackCooldown\<close> that is positive and leaves it alone otherwise; the
  cooldown is not kept at or above zero (the last decrement can take it below zero, by less
  than that frame's delta). An update takes health from the player only if the cooldown
  after that decrement is at most zero, and then sets it to 1.5. Hence, over any frames with
  non-negative deltas, wherever the player stands, two damage applications by one robot are
  at least 1.5 seconds of simulated time apart.
\<close>

theorem attack_cooldown_spacing:
  "(\<not> dying r \<longrightarrow>
      (attackCooldown (snd (Robot_update deltaTime cam rolls (g, r))) = 1.5 \<and>
       health (fst (Robot_update deltaTime cam rolls (g, r))) = health g - damage r \<and>
       isRunning g \<and>
       (if attackCooldown r > 0 then attackCooldown r - deltaTime else attackCooldown r) \<le> 0)
      \<or>
      (fst (Robot_update deltaTime cam rolls (g, r)) = g \<and>
       attackCooldown (snd (Robot_update deltaTime cam rolls (g, r))) =
         (if attackCooldown r > 0 then attackCooldown r - deltaTime else attackCooldown r))) \<and>
   (dying r \<longrightarrow>
      fst (Robot_update deltaTime cam rolls (g, r)) = g \<and>
      attackCooldown (snd (Robot_update deltaTime cam rolls (g, r))) = attackCooldown r) \<and>
   (0 < attackCooldown r \<longrightarrow>
      - deltaTime < attackCooldown (snd (Robot_update deltaTime cam rolls (g, r))) \<or>
      0 < attackCooldown (snd (Robot_update deltaTime cam rolls (g, r)))) \<and>
   ((\<forall>f \<in> set fs. 0 \<le> rf_dt f) \<longrightarrow> spaced 1.5 (damageTimes t r fs))"
proof -
  obtain g' r' where u: "Robot_update deltaTime cam rolls (g, r) = (g', r')"
    by (cases "Robot_update deltaTime cam rolls (g, r)")
  have a: "\<not> dying r \<longrightarrow>
      (attackCooldown r' = 1.5 \<and> health g' = health g - damage r \<and> isRunning g \<and>
       (if attackCooldown r > 0 then attackCooldown r - deltaTime else attackCooldown r) \<le> 0)
      \<or> (g' = g \<and> attackCooldown r' =
         (if attackCooldown r > 0 then attackCooldown r - deltaTime else attackCooldown r))"
    using Robot_update_cooldown[OF u] by blast
  have b: "dying r \<longrightarrow> g' = g \<and> attackCooldown r' = attackCooldown r"
    using Robot_update_dying[OF _ u] by blast
  from a b Robot_update_cooldown_floor[of r deltaTime cam rolls g]
    damageTimes_spaced[of fs t r] u
  show ?thesis by simp
qed

lemma vlength_x: "vlength \<lparr>vx = a, vy = 0, vz = 0\<rparr> = \<bar>a\<bar>"
  by (simp add: vlength_def)

lemma vlength_zero: "vlength \<lparr>vx = 0, vy = 0, vz = 0\<rparr> = 0"
  by (simp add: vlength_def)

lemma contact_frame1:
  "fst (Robot_update 1 \<lparr>vx = 0, vy = 2, vz = 0\<rparr> (0, 0) (gs running_world, near_robot))
     = (gs running_world)\<lparr>health := 88\<rparr>"
  "attackCooldown (snd (Robot_update 1 \<lparr>vx = 0, vy = 2, vz = 0\<rparr> (0, 0) (gs running_world, near_robot))) = 1.5"
  "position (snd (Robot_update 1 \<lparr>vx = 0, vy = 2, vz = 0\<rparr> (0, 0) (gs running_world, near_robot)))
     = \<lparr>vx = 0, vy = 0, vz = - 35\<rparr>"
  "dying (snd (Robot_update 1 \<lparr>vx = 0, vy = 2, vz = 0\<rparr> (0, 0) (gs running_world, near_robot))) = False"
  "damage (snd (Robot_update 1 \<lparr>vx = 0, vy = 2, vz = 0\<rparr> (0, 0) (gs running_world, near_robot))) = 12"
  by (simp_all add: Robot_update_def attackPlayer_def Let_def near_robot_def sample_robot_def
      running_world_def initial_world_def vlength_x clamp_def robot_boundaryLimit_def)

lemma respawned_waits:
  assumes "\<not> dying r" "attackCooldown r = 1.5" "vx (position r) = 0" "vz (position r) = - 35"
  shows "fst (Robot_update 1 \<lparr>vx = 0, vy = 2, vz = - 35\<rparr> (0, 0) (g, r)) = g"
    and "attackCooldown (snd (Robot_update 1 \<lparr>vx = 0, vy = 2, vz = - 35\<rparr> (0, 0) (g, r))) = 0.5"
    and "\<not> dying (snd (Robot_update 1 \<lparr>vx = 0, vy = 2, vz = - 35\<rparr> (0, 0) (g, r)))"
    and "vx (position (snd (Robot_update 1 \<lparr>vx = 0, vy = 2, vz = - 35\<rparr> (0, 0) (g, r)))) = 0"
    and "vz (position (snd (Robot_update 1 \<lparr>vx = 0, vy = 2, vz = - 35\<rparr> (0, 0) (g, r)))) = - 35"
    and "damage (snd (Robot_update 1 \<lparr>vx = 0, vy = 2, vz = - 35\<rparr> (0, 0) (g, r))) = damage r"
  using assms
  by (simp_all add: Robot_update_def Let_def vlength_zero vnormalize_def multiplyScalar_def
      clamp_def robot_boundaryLimit_def)

lemma respawned_attacks:
  assumes "\<not> dying r" "attackCooldown r = 0.5" "vx (position r) = 0" "vz (position r) = - 35"
    "damage r = 12" "isRunning g" "health g = 100"
  shows "health (fst (Robot_update 1 \<lparr>vx = 0, vy = 2, vz = - 35\<rparr> (0, 0) (g, r))) = 88"
  using assms
  by (simp add: Robot_update_def attackPlayer_def Let_def vlength_zero vnormalize_def
      multiplyScalar_def clamp_def robot_boundaryLimit_def)

lemma contact_damageTimes:
  "damageTimes 0 near_robot contact_frames = [1, 3]"
proof -
  let ?g = "gs running_world"
  let ?r1 = "snd (Robot_update 1 \<lparr>vx = 0, vy = 2, vz = 0\<rparr> (0, 0) (?g, near_robot))"
  let ?r2 = "snd (Robot_update 1 \<lparr>vx = 0, vy = 2, vz = - 35\<rparr> (0, 0) (?g, ?r1))"
  have g: "isRunning ?g" "health ?g = 100"
    by (simp_all add: running_world_def initial_world_def)
  have s1: "health (fst (Robot_update 1 \<lparr>vx = 0, vy = 2, vz = 0\<rparr> (0, 0) (?g, near_robot))) = 88"
    by (simp add: contact_frame1(1))
  have r1: "\<not> dying ?r1" "attackCooldown ?r1 = 1.5" "vx (position ?r1) = 0"
    "vz (position ?r1) = - 35" "damage ?r1 = 12"
    by (simp_all add: contact_frame1)
  note w = respawned_waits[OF r1(1-4), of ?g]
  from w r1(5) have r2: "\<not> dying ?r2" "attackCooldown ?r2 = 0.5" "vx (position ?r2) = 0"
    "vz (position ?r2) = - 35" "damage ?r2 = 12"
    by simp_all
  note a = respawned_attacks[OF r2 g]
  show ?thesis
    by (simp add: contact_frames_def case_prod_beta s1 w(1) a g)
qed

theorem attack_cooldown_spacing_witness:
  "\<not> dying near_robot \<and> attackCooldown near_robot \<le> 0 \<and>
   list_all (\<lambda>f. 0 \<le> rf_dt f) contact_frames \<and>
   damageTimes 0 near_robot contact_frames = [1, 3] \<and>
   spaced 1.5 (damageTimes 0 near_robot contact_frames) \<and>
   attackCooldown (snd (Robot_update 1 \<lparr>vx = 0, vy = 2, vz = 0\<rparr> (0, 0)
                          (gs running_world, near_robot))) = 1.5 \<and>
   health (fst (Robot_update 1 \<lparr>vx = 0, vy = 2, vz = 0\<rparr> (0, 0)
                          (gs running_world, near_robot))) = 88 \<and>
   dying (sample_robot\<lparr>dying := True\<rparr>) \<and>
   attackCooldown (snd (Robot_update 1 \<lparr>vx = 0, vy = 2, vz = 0\<rparr> (0, 0)
                          (gs running_world, sample_robot\<lparr>dying := True\<rparr>))) = 0 \<and>
   0 < attackCooldown (far_robot\<lparr>attackCooldown := 1 / 100\<rparr>) \<and>
   - (1 / 60) < attackCooldown (snd (Robot_update (1 / 60) \<lparr>vx = 0, vy = 2, vz = 0\<rparr> (0, 0)
                          (gs running_world, far_robot\<lparr>attackCooldown := 1 / 100\<rparr>)))"
proof -
  have h1: "\<not> dying near_robot" "attackCooldown near_robot \<le> 0" "damage near_robot = 12"
    by (simp_all add: near_robot_def sample_robot_def)
  have h2: "\<forall>f \<in> set contact_frames. 0 \<le> rf_dt f"
    by (simp add: contact_frames_def)
  have h3: "dying (sample_robot\<lparr>dying := True\<rparr>)"
    "attackCooldown (sample_robot\<lparr>dying := True\<rparr>) = 0" by (simp_all add: sample_robot_def)
  have h4: "0 < attackCooldown (far_robot\<lparr>attackCooldown := 1 / 100\<rparr>)" by simp
  have h5: "health (gs running_world) = 100"
    by (simp add: running_world_def initial_world_def)
  have f1: "fst (Robot_update 1 \<lparr>vx = 0, vy = 2, vz = 0\<rparr> (0, 0) (gs running_world, near_robot))
      \<noteq> gs running_world"
  proof
    assume "fst (Robot_update 1 \<lparr>vx = 0, vy = 2, vz = 0\<rparr> (0, 0) (gs running_world, near_robot))
      = gs running_world"
    then have "health (fst (Robot_update 1 \<lparr>vx = 0, vy = 2, vz = 0\<rparr> (0, 0)
         (gs running_world, near_robot))) = health (gs running_world)" by simp
    with h5 show False by (simp add: contact_frame1(1))
  qed
  note t1 = attack_cooldown_spacing[where r=near_robot and deltaTime=1
      and cam="\<lparr>vx = 0, vy = 2, vz = 0\<rparr>" and rolls="(0, 0)" and g="gs running_world"
      and fs=contact_frames and t=0]
  note t2 = attack_cooldown_spacing[where r="sample_robot\<lparr>dying := True\<rparr>" and deltaTime=1
      and cam="\<lparr>vx = 0, vy = 2, vz = 0\<rparr>" and rolls="(0, 0)" and g="gs running_world"]
  note t3 = attack_cooldown_spacing[where r="far_robot\<lparr>attackCooldown := 1 / 100\<rparr>"
      and deltaTime="1 / 60" and cam="\<lparr>vx = 0, vy = 2, vz = 0\<rparr>" and rolls="(0, 0)"
      and g="gs running_world"]
  from t1 h2 have c1: "spaced 1.5 (damageTimes 0 near_robot contact_frames)" by simp
  from t1 h1 f1 h5 have c2: "attackCooldown (snd (Robot_update 1 \<lparr>vx = 0, vy = 2, vz = 0\<rparr> (0, 0)
                          (gs running_world, near_robot))) = 1.5 \<and>
   health (fst (Robot_update 1 \<lparr>vx = 0, vy = 2, vz = 0\<rparr> (0, 0)
                          (gs running_world, near_robot))) = 88"
    by simp
  from t2 h3 have c3: "attackCooldown (snd (Robot_update 1 \<lparr>vx = 0, vy = 2, vz = 0\<rparr> (0, 0)
                          (gs running_world, sample_robot\<lparr>dying := True\<rparr>))) = 0"
    by simp
  from t3 h4 have c4: "- (1 / 60) < attackCooldown (snd (Robot_update (1 / 60) \<lparr>vx = 0, vy = 2, vz = 0\<rparr> (0, 0)
                          (gs running_world, far_robot\<lparr>attackCooldown := 1 / 100\<rparr>)))
      \<or> 0 < attackCooldown (snd (Robot_update (1 / 60) \<lparr>vx = 0, vy = 2, vz = 0\<rparr> (0, 0)
                          (gs running_world, far_robot\<lparr>attackCooldown := 1 / 100\<rparr>)))"
    by simp
  then have c4': "- (1 / 60) < attackCooldown (snd (Robot_update (1 / 60) \<lparr>vx = 0, vy = 2, vz = 0\<rparr> (0, 0)
                          (gs running_world, far_robot\<lparr>attackCooldown := 1 / 100\<rparr>)))"
    by linarith
  from h1 h2 h3 h4 c1 c2 c3 c4' contact_damageTimes show ?thesis by (simp add: list_all_iff)
qed

text \<open>
  The claim as stated fails: the cooldown does go below zero. A robot out of reach with 0.01
  seconds of cooldown left has a cooldown of \<open>0.01 - 1/60 < 0\<close> after a frame of a
  sixtieth of a second.
\<close>

theorem cooldown_negative_counterexample:
  "\<not> dying (far_robot\<lparr>attackCooldown := 1 / 100\<rparr>) \<and>
   0 \<le> attackCooldown (far_robot\<lparr>attackCooldown := 1 / 100\<rparr>) \<and>
   attackCooldown (snd (Robot_update (1 / 60) \<lparr>vx = 0, vy = 2, vz = 0\<rparr> (0, 0)
                          (gs running_world, far_robot\<lparr>attackCooldown := 1 / 100\<rparr>))) = - (1 / 150) \<and>
   attackCooldown (snd (Robot_update (1 / 60) \<lparr>vx = 0, vy = 2, vz = 0\<rparr> (0, 0)
                          (gs running_world, far_robot\<lparr>attackCooldown := 1 / 100\<rparr>))) < 0"
  by (simp add: Robot_update_def Let_def far_robot_def sample_robot_def vlength_x)

section \<open>Health and pickups\<close>

lemma updatePickups_maxHealth:
  "maxHealth (fst (updatePickups deltaTime cam g ps)) = maxHealth g"
  by (induction ps arbitrary: g) (simp_all add: Let_def case_prod_beta)








lemma vlength_less:
  "a * a + b * b + c * c < 9 \<Longrightarrow> vlength \<lparr>vx = a, vy = b, vz = c\<rparr> < 3"
proof -
  assume "a * a + b * b + c * c < 9"
  then have "sqrt (a * a + b * b + c * c) < sqrt 9" by (simp only: real_sqrt_less_iff)
  moreover have "sqrt 9 = 3" using real_sqrt_abs2[of 3] by simp
  ultimately show ?thesis by (simp add: vlength_def)
qed

lemma vlength_not_less:
  "9 \<le> a * a + b * b + c * c \<Longrightarrow> \<not> vlength \<lparr>vx = a, vy = b, vz = c\<rparr> < 3"
proof -
  assume "9 \<le> a * a + b * b + c * c"
  then have "sqrt 9 \<le> sqrt (a * a + b * b + c * c)" by (simp only: real_sqrt_le_iff)
  moreover have "sqrt 9 = 3" using real_sqrt_abs2[of 3] by simp
  ultimately show ?thesis by (simp add: vlength_def)
qed

lemma sample_pickups_updated:
  "HealthPickup_update (1 / 60) near_pickup = near_pickup\<lparr>pk_time := pi\<rparr>"
  "HealthPickup_update (1 / 60) far_pickup = far_pickup\<lparr>pk_time := pi\<rparr>"
  by (simp_all add: HealthPickup_update_def Let_def near_pickup_def far_pickup_def)

lemma sample_pickups_reach:
  "inReach (1 / 60) \<lparr>vx = 0, vy = 2, vz = 0\<rparr> near_pickup"
  "\<not> inReach (1 / 60) \<lparr>vx = 0, vy = 2, vz = 0\<rparr> far_pickup"
  unfolding inReach_def sample_pickups_updated distanceTo_def
  by (simp_all add: near_pickup_def far_pickup_def vlength_less vlength_not_less)

lemma idle_camera:
  "camera (updatePlayerMovement idle_frame running_world) = \<lparr>vx = 0, vy = 2, vz = 0\<rparr>"
  by (simp add: updatePlayerMovement_def Let_def idle_frame_def running_world_def
      initial_world_def clamp_def player_boundaryLimit_def gravity_def)

lemma HealthPickup_update_collected [simp]:
  "collected (HealthPickup_update deltaTime p) = collected p"
  by (simp add: HealthPickup_update_def Let_def)

lemma updatePickups_list:
  "snd (updatePickups deltaTime cam g ps) =
     map (\<lambda>p. if inReach deltaTime cam p
              then (HealthPickup_update deltaTime p)\<lparr>collected := True\<rparr>
              else HealthPickup_update deltaTime p) ps"
  by (induction ps arbitrary: g) (simp_all add: Let_def case_prod_beta inReach_def)

lemma updatePickups_state:
  "fst (updatePickups deltaTime cam g ps) = (heal ^^ length (filter (inReach deltaTime cam) ps)) g"
proof (induction ps arbitrary: g)
  case Nil
  then show ?case by simp
next
  case (Cons p ps)
  show ?case
  proof (cases "inReach deltaTime cam p")
    case True
    then have "fst (updatePickups deltaTime cam g (p # ps)) = fst (updatePickups deltaTime cam (heal g) ps)"
      by (simp add: Let_def case_prod_beta inReach_def heal_def)
    with Cons.IH[of "heal g"] True show ?thesis
      by (simp add: funpow_swap1)
  next
    case False
    then have "fst (updatePickups deltaTime cam g (p # ps)) = fst (updatePickups deltaTime cam g ps)"
      by (simp add: Let_def case_prod_beta inReach_def)
    with Cons.IH[of g] False show ?thesis by simp
  qed
qed

lemma heal_at_max: "health g = maxHealth g \<Longrightarrow> heal g = g"
  by (simp add: heal_def)

lemma heal_pow_at_max: "health g = maxHealth g \<Longrightarrow> (heal ^^ n) g = g"
  by (induction n) (simp_all add: heal_at_max)

lemma pickups_kept:
  assumes "\<forall>p \<in> set ps. \<not> collected p"
  shows "filter (\<lambda>p. \<not> collected p) (snd (updatePickups deltaTime cam g ps)) =
           map (HealthPickup_update deltaTime) (filter (\<lambda>p. \<not> inReach deltaTime cam p) ps)"
  using assms unfolding updatePickups_list
  by (induction ps) simp_all

lemma animate_pickups:
  assumes an: "animate f w = Some w'" and run: "isRunning (gs w)" "\<not> isPaused (gs w)"
    and fresh: "\<forall>p \<in> set (pickups w). \<not> collected p"
  shows "pickups w' = map (HealthPickup_update (dt f))
                        (filter (\<lambda>p. \<not> inReach (dt f) (camera w') p) (pickups w))"
    and "\<forall>p \<in> set (pickups w'). \<not> collected p"
proof -
  from animate_running[OF an run(2,1)] obtain w1 where
    sp: "spawnStep f (updatePlayerMovement f w) = Some w1" and
    w': "w' = pickupStep f (effectStep f (robotStep f w1))" by blast
  from spawnStep_facts(1,3)[OF sp] have
    c1: "camera w1 = camera (updatePlayerMovement f w)" and p1: "pickups w1 = pickups w" by simp_all
  have cam: "camera w' = camera w1"
    by (simp add: w' pickupStep_facts robotStep_facts)
  have "pickups w' = filter (\<lambda>p. \<not> collected p)
      (snd (updatePickups (dt f) (camera w1) (gs (robotStep f w1)) (pickups w)))"
    by (simp add: w' pickupStep_facts robotStep_facts p1)
  with pickups_kept[OF fresh, of "dt f" "camera w1" "gs (robotStep f w1)"] cam
  show "pickups w' = map (HealthPickup_update (dt f))
                        (filter (\<lambda>p. \<not> inReach (dt f) (camera w') p) (pickups w))"
    by simp
  with fresh show "\<forall>p \<in> set (pickups w'). \<not> collected p" by auto
qed

text \<open>
  Claim C10. In a frame of the enhanced build, the pickups that remain are exactly those the
  player was not within the collection radius of (distance below 3 after the pickup's own
  update), each advanced by its update; a pickup within the radius is removed whatever the
  health is. Each collected pickup sets the health to \<open>min maxHealth (health + 20)\<close>, which
  leaves a health equal to \<open>maxHealth\<close> as it is. A frame that is paused or not running
  leaves the pickups alone.
\<close>

theorem pickups_removed_on_contact_only:
  "fst (updatePickups deltaTime cam g ps) = (heal ^^ length (filter (inReach deltaTime cam) ps)) g \<and>
   health (heal g) = min (maxHealth g) (health g + 20) \<and>
   (health g = maxHealth g \<longrightarrow> fst (updatePickups deltaTime cam g ps) = g) \<and>
   ((\<forall>p \<in> set ps. \<not> collected p) \<longrightarrow>
      filter (\<lambda>p. \<not> collected p) (snd (updatePickups deltaTime cam g ps)) =
        map (HealthPickup_update deltaTime) (filter (\<lambda>p. \<not> inReach deltaTime cam p) ps)) \<and>
   (animate f w = Some w' \<and> isRunning (gs w) \<and> \<not> isPaused (gs w) \<and>
    (\<forall>p \<in> set (pickups w). \<not> collected p) \<longrightarrow>
      pickups w' = map (HealthPickup_update (dt f))
                     (filter (\<lambda>p. \<not> inReach (dt f) (camera w') p) (pickups w)) \<and>
      (\<forall>p \<in> set (pickups w'). \<not> collected p)) \<and>
   (animate f w = Some w' \<and> (\<not> isRunning (gs w) \<or> isPaused (gs w)) \<longrightarrow> pickups w' = pickups w)"
proof -
  have a: "health g = maxHealth g \<longrightarrow> fst (updatePickups deltaTime cam g ps) = g"
    by (simp add: updatePickups_state heal_pow_at_max)
  have b: "animate f w = Some w' \<and> (\<not> isRunning (gs w) \<or> isPaused (gs w)) \<longrightarrow> pickups w' = pickups w"
    using animate_idle[of f w w'] by auto
  have c: "animate f w = Some w' \<and> isRunning (gs w) \<and> \<not> isPaused (gs w) \<and>
    (\<forall>p \<in> set (pickups w). \<not> collected p) \<longrightarrow>
      pickups w' = map (HealthPickup_update (dt f))
                     (filter (\<lambda>p. \<not> inReach (dt f) (camera w') p) (pickups w)) \<and>
      (\<forall>p \<in> set (pickups w'). \<not> collected p)"
    using animate_pickups[of f w w'] by blast
  have d: "(\<forall>p \<in> set ps. \<not> collected p) \<longrightarrow>
      filter (\<lambda>p. \<not> collected p) (snd (updatePickups deltaTime cam g ps)) =
        map (HealthPickup_update deltaTime) (filter (\<lambda>p. \<not> inReach deltaTime cam p) ps)"
    using pickups_kept[of ps deltaTime cam g] by blast
  from a b c d updatePickups_state[of deltaTime cam g ps] show ?thesis
    by (simp add: heal_def)
qed

lemma animate_pickup_world:
  "animate idle_frame pickup_world = Some (the (animate idle_frame pickup_world))"
  by (simp add: animate_def spawnStep_def Let_def idle_frame_def pickup_world_def
      running_world_def initial_world_def updatePlayerMovement_def)

lemma pickup_world_camera:
  "camera (the (animate idle_frame pickup_world)) = \<lparr>vx = 0, vy = 2, vz = 0\<rparr>"
proof -
  have "camera (updatePlayerMovement idle_frame pickup_world) = \<lparr>vx = 0, vy = 2, vz = 0\<rparr>"
    by (simp add: updatePlayerMovement_def Let_def idle_frame_def pickup_world_def
        running_world_def initial_world_def clamp_def player_boundaryLimit_def gravity_def)
  moreover from animate_running[OF animate_pickup_world] obtain w1 where
    sp: "spawnStep idle_frame (updatePlayerMovement idle_frame pickup_world) = Some w1" and
    w': "the (animate idle_frame pickup_world)
           = pickupStep idle_frame (effectStep idle_frame (robotStep idle_frame w1))"
    by (auto simp: pickup_world_def running_world_def initial_world_def)
  moreover from spawnStep_facts(1)[OF sp]
  have "camera w1 = camera (updatePlayerMovement idle_frame pickup_world)" .
  moreover have "camera (pickupStep idle_frame (effectStep idle_frame (robotStep idle_frame w1)))
      = camera w1"
    by (simp add: pickupStep_facts robotStep_facts)
  ultimately show ?thesis by simp
qed

theorem pickups_removed_on_contact_only_witness:
  "animate idle_frame pickup_world = Some (the (animate idle_frame pickup_world)) \<and>
   isRunning (gs pickup_world) \<and> \<not> isPaused (gs pickup_world) \<and>
   list_all (\<lambda>p. \<not> collected p) (pickups pickup_world) \<and>
   pickups pickup_world = [near_pickup, far_pickup] \<and>
   inReach (dt idle_frame) (camera (the (animate idle_frame pickup_world))) near_pickup \<and>
   \<not> inReach (dt idle_frame) (camera (the (animate idle_frame pickup_world))) far_pickup \<and>
   pickups (the (animate idle_frame pickup_world)) = [far_pickup\<lparr>pk_time := pi\<rparr>] \<and>
   health (gs pickup_world) = 90 \<and>
   health (fst (updatePickups (1 / 60) \<lparr>vx = 0, vy = 2, vz = 0\<rparr> (gs pickup_world)
                 (pickups pickup_world))) = 100 \<and>
   health (gs running_world) = maxHealth (gs running_world) \<and>
   fst (updatePickups (1 / 60) \<lparr>vx = 0, vy = 2, vz = 0\<rparr> (gs running_world)
          (pickups pickup_world)) = gs running_world \<and>
   animate idle_frame (pickup_world\<lparr>gs := (gs pickup_world)\<lparr>isPaused := True\<rparr>\<rparr>)
     = Some (pickup_world\<lparr>gs := (gs pickup_world)\<lparr>isPaused := True\<rparr>\<rparr>)"
proof -
  have h1: "animate idle_frame pickup_world = Some (the (animate idle_frame pickup_world))"
    by (rule animate_pickup_world)
  have h2: "isRunning (gs pickup_world)" "\<not> isPaused (gs pickup_world)"
    "pickups pickup_world = [near_pickup, far_pickup]" "health (gs pickup_world) = 90"
    "maxHealth (gs pickup_world) = 100"
    by (simp_all add: pickup_world_def running_world_def initial_world_def)
  have h3: "\<forall>p \<in> set (pickups pickup_world). \<not> collected p"
    by (simp add: h2 near_pickup_def far_pickup_def)
  have h4: "dt idle_frame = 1 / 60" by (simp add: idle_frame_def)
  have h5: "health (gs running_world) = maxHealth (gs running_world)"
    by (simp add: running_world_def initial_world_def)
  have h6: "animate idle_frame (pickup_world\<lparr>gs := (gs pickup_world)\<lparr>isPaused := True\<rparr>\<rparr>)
     = Some (pickup_world\<lparr>gs := (gs pickup_world)\<lparr>isPaused := True\<rparr>\<rparr>)"
    by (simp add: animate_def)
  note r = sample_pickups_reach
  note t1 = pickups_removed_on_contact_only[where deltaTime="1 / 60"
      and cam="\<lparr>vx = 0, vy = 2, vz = 0\<rparr>" and g="gs pickup_world" and ps="pickups pickup_world"
      and f=idle_frame and w=pickup_world and w'="the (animate idle_frame pickup_world)"]
  note t2 = pickups_removed_on_contact_only[where deltaTime="1 / 60"
      and cam="\<lparr>vx = 0, vy = 2, vz = 0\<rparr>" and g="gs running_world" and ps="pickups pickup_world"
      and f=idle_frame and w="pickup_world\<lparr>gs := (gs pickup_world)\<lparr>isPaused := True\<rparr>\<rparr>"
      and w'="pickup_world\<lparr>gs := (gs pickup_world)\<lparr>isPaused := True\<rparr>\<rparr>"]
  from t1 h1 h2 h3 have c1: "pickups (the (animate idle_frame pickup_world)) =
      map (HealthPickup_update (dt idle_frame))
        (filter (\<lambda>p. \<not> inReach (dt idle_frame) (camera (the (animate idle_frame pickup_world))) p)
           (pickups pickup_world))"
    by simp
  then have c1': "pickups (the (animate idle_frame pickup_world)) = [far_pickup\<lparr>pk_time := pi\<rparr>]"
    by (simp add: h2 h4 pickup_world_camera r sample_pickups_updated)
  from t1 have "fst (updatePickups (1 / 60) \<lparr>vx = 0, vy = 2, vz = 0\<rparr> (gs pickup_world)
                 (pickups pickup_world))
      = (heal ^^ length (filter (inReach (1 / 60) \<lparr>vx = 0, vy = 2, vz = 0\<rparr>) (pickups pickup_world)))
          (gs pickup_world)"
    by (rule conjunct1)
  then have c2: "health (fst (updatePickups (1 / 60) \<lparr>vx = 0, vy = 2, vz = 0\<rparr> (gs pickup_world)
                 (pickups pickup_world))) = 100"
    by (simp add: h2 r heal_def)
  from t2[THEN conjunct2, THEN conjunct2, THEN conjunct1] h5
  have c3: "fst (updatePickups (1 / 60) \<lparr>vx = 0, vy = 2, vz = 0\<rparr> (gs running_world)
          (pickups pickup_world)) = gs running_world"
    by (rule mp)
  from h1 h2 h3 h5 h6 c1' c2 c3 r show ?thesis
    by (simp add: h4 pickup_world_camera list_all_iff)
qed







section \<open>Starting a run: what is reset\<close>

lemma typePool_first: "typePool wv ! 0 = Normal"
  by (simp add: typePool_def)

lemma math_operations_first: "math_operations wv ! 0 = Plus"
  by (simp add: math_operations_def)

lemma MathGenerator_returns:
  "\<exists>res. MathGenerator_generate wv [0, 0, 0, 3 / 5, 7 / 10, 0, 0] = Some (res, [0, 0]) \<and>
     g_answer res = Num 2 \<and> g_wrongAnswers res = [Num 3, Num 4]"
proof -
  have w: "wrongLoop 2 [] [3 / 5, 7 / 10, 0, 0] = Some ([3, 4], [0, 0])"
    by (simp add: wrongLoop.simps randInt_def)
  show ?thesis
    by (simp add: MathGenerator_generate_def math_operations_first math_operands_def randInt_def
        Let_def w)
qed

lemma QuizGenerator_returns:
  "\<exists>res. QuizGenerator_generate wv [0, 0, 0] = Some (res, [0, 0]) \<and>
     g_answer res = Str ''Paris'' \<and> g_wrongAnswers res = [Str ''London'', Str ''Berlin'']"
  by (simp add: QuizGenerator_generate_def Let_def randInt_def Quiz_easy_def)

lemma EnglishGenerator_returns:
  "\<exists>res. EnglishGenerator_generate wv [0, 0, 0] = Some (res, [0, 0]) \<and>
     g_answer res = Str ''Cold'' \<and> g_wrongAnswers res = [Str ''Warm'', Str ''Soft'']"
  by (simp add: EnglishGenerator_generate_def Let_def randInt_def English_easy_def)

lemma generateQuestion_returns:
  "\<exists>rs4 x. generateQuestion md wv rs4 = Some (x, [])"
proof -
  consider "md = ''quiz''" | "md \<noteq> ''quiz''" "md = ''english''"
    | "md \<noteq> ''quiz''" "md \<noteq> ''english''" by blast
  then show ?thesis
  proof cases
    case 1
    from QuizGenerator_returns[of wv] obtain res where
      "QuizGenerator_generate wv [0, 0, 0] = Some (res, [0, 0])"
      "g_answer res = Str ''Paris''" "g_wrongAnswers res = [Str ''London'', Str ''Berlin'']"
      by blast
    with 1 have "\<exists>x. generateQuestion md wv [0, 0, 0] = Some (x, [])"
      by (simp add: generateQuestion_def swap_def randInt_def)
    then show ?thesis by blast
  next
    case 2
    from EnglishGenerator_returns[of wv] obtain res where
      "EnglishGenerator_generate wv [0, 0, 0] = Some (res, [0, 0])"
      "g_answer res = Str ''Cold''" "g_wrongAnswers res = [Str ''Warm'', Str ''Soft'']"
      by blast
    with 2 have "\<exists>x. generateQuestion md wv [0, 0, 0] = Some (x, [])"
      by (simp add: generateQuestion_def swap_def randInt_def)
    then show ?thesis by blast
  next
    case 3
    from MathGenerator_returns[of wv] obtain res where
      "MathGenerator_generate wv [0, 0, 0, 3 / 5, 7 / 10, 0, 0] = Some (res, [0, 0])"
      "g_answer res = Num 2" "g_wrongAnswers res = [Num 3, Num 4]"
      by blast
    with 3 have "\<exists>x. generateQuestion md wv [0, 0, 0, 3 / 5, 7 / 10, 0, 0] = Some (x, [])"
      by (simp add: generateQuestion_def swap_def randInt_def)
    then show ?thesis by blast
  qed
qed

text \<open>The constructor returns on suitable rolls, whatever the wave and the mode are.\<close>

lemma Robot_new_returns:
  "\<exists>rs r. Robot_new None g cam yw ptch rs = Some (r, [])"
proof -
  from generateQuestion_returns[of "mode g" "wave g"] obtain rs4 x where
    q: "generateQuestion (mode g) (wave g) rs4 = Some (x, [])" by blast
  obtain qq ca sl where x: "x = (qq, ca, sl)" by (cases x)
  have "\<exists>r. Robot_new None g cam yw ptch (0 # 1 / 2 # 1 / 2 # 1 / 2 # rs4) = Some (r, [])"
    by (simp add: Robot_new_def Let_def randInt_def typePool_first q x)
  then show ?thesis by blast
qed

lemma startGame_returns:
  "\<exists>rs w'. startGame w rs = Some w'"
proof -
  let ?g = "(gs w)\<lparr>score := 0, wave := 1, health := maxHealth (gs w), combo := 1, kills := 0,
                   isRunning := True\<rparr>"
  from Robot_new_returns[of ?g "\<lparr>vx = 0, vy = 2, vz = 0\<rparr>" 0 0] obtain rs r where
    "Robot_new None ?g \<lparr>vx = 0, vy = 2, vz = 0\<rparr> 0 0 rs = Some (r, [])" by blast
  then have "\<exists>w'. startGame w rs = Some w'"
    by (simp add: startGame_def Let_def)
  then show ?thesis by blast
qed

lemma startGame_fields:
  assumes "startGame w rs = Some w'"
  shows "gs w' = (gs w)\<lparr>score := 0, wave := 1, health := maxHealth (gs w), combo := 1,
                       kills := 0, isRunning := True\<rparr>"
    and "pickups w' = []" and "particles w' = []" and "bullets w' = []"
    and "spawnTimer w' = 0" and "spawnInterval w' = 2"
    and "camera w' = \<lparr>vx = 0, vy = 2, vz = 0\<rparr>"
    and "\<exists>r rest. Robot_new None (gs w') \<lparr>vx = 0, vy = 2, vz = 0\<rparr> 0 0 rs = Some (r, rest) \<and>
           robots w' = [r]"
  using assms by (auto simp: startGame_def Let_def split: option.splits)

lemma startGame_basic_fields:
  assumes "startGame_basic w rs = Some w'"
  shows "gs w' = (gs w)\<lparr>score := 0, wave := 1, health := maxHealth (gs w), combo := 1,
                       kills := 0, isRunning := True\<rparr>"
    and "pickups w' = pickups w" and "particles w' = []" and "bullets w' = []"
    and "spawnTimer w' = 0" and "spawnInterval w' = 2"
    and "camera w' = \<lparr>vx = 0, vy = 2, vz = 0\<rparr>"
    and "\<exists>r rest. Robot_new_basic None (gs w') \<lparr>vx = 0, vy = 2, vz = 0\<rparr> rs = Some (r, rest) \<and>
           robots w' = [r]"
  using assms by (auto simp: startGame_basic_def Let_def split: option.splits)

text \<open>
  Claim C9, as amended. \<open>startGame\<close> (of either build) sets score 0, wave 1, health
  \<open>maxHealth\<close>, combo 1, kills 0 and \<open>isRunning\<close> true; it writes neither \<open>isPaused\<close>
  nor the mode, which keep their values. It empties the pickups (enhanced build), the
  particles and the bullets, sets \<open>spawnTimer\<close> to 0 and \<open>spawnInterval\<close> to 2, puts the
  player back at the centre, and replaces the enemies by exactly one newly built enemy. On
  suitable random numbers it returns, from every state.
\<close>

theorem startGame_resets:
  "(startGame w rs = Some w' \<longrightarrow>
      score (gs w') = 0 \<and> wave (gs w') = 1 \<and> health (gs w') = maxHealth (gs w) \<and>
      maxHealth (gs w') = maxHealth (gs w) \<and> combo (gs w') = 1 \<and> kills (gs w') = 0 \<and>
      isRunning (gs w') \<and> isPaused (gs w') = isPaused (gs w) \<and> mode (gs w') = mode (gs w) \<and>
      pickups w' = [] \<and> particles w' = [] \<and> bullets w' = [] \<and>
      spawnTimer w' = 0 \<and> spawnInterval w' = 2 \<and> camera w' = \<lparr>vx = 0, vy = 2, vz = 0\<rparr> \<and>
      (\<exists>r rest. Robot_new None (gs w') \<lparr>vx = 0, vy = 2, vz = 0\<rparr> 0 0 rs = Some (r, rest) \<and>
         robots w' = [r])) \<and>
   (startGame_basic w rs = Some w' \<longrightarrow>
      score (gs w') = 0 \<and> wave (gs w') = 1 \<and> health (gs w') = maxHealth (gs w) \<and>
      maxHealth (gs w') = maxHealth (gs w) \<and> combo (gs w') = 1 \<and> kills (gs w') = 0 \<and>
      isRunning (gs w') \<and> isPaused (gs w') = isPaused (gs w) \<and>
      particles w' = [] \<and> bullets w' = [] \<and>
      spawnTimer w' = 0 \<and> spawnInterval w' = 2 \<and> camera w' = \<lparr>vx = 0, vy = 2, vz = 0\<rparr> \<and>
      (\<exists>r rest. Robot_new_basic None (gs w') \<lparr>vx = 0, vy = 2, vz = 0\<rparr> rs = Some (r, rest) \<and>
         robots w' = [r])) \<and>
   (\<exists>rs0 w0. startGame w rs0 = Some w0)"
proof -
  have a: "score (gs w') = 0 \<and> wave (gs w') = 1 \<and> health (gs w') = maxHealth (gs w) \<and>
      maxHealth (gs w') = maxHealth (gs w) \<and> combo (gs w') = 1 \<and> kills (gs w') = 0 \<and>
      isRunning (gs w') \<and> isPaused (gs w') = isPaused (gs w) \<and> mode (gs w') = mode (gs w) \<and>
      pickups w' = [] \<and> particles w' = [] \<and> bullets w' = [] \<and>
      spawnTimer w' = 0 \<and> spawnInterval w' = 2 \<and> camera w' = \<lparr>vx = 0, vy = 2, vz = 0\<rparr> \<and>
      (\<exists>r rest. Robot_new None (gs w') \<lparr>vx = 0, vy = 2, vz = 0\<rparr> 0 0 rs = Some (r, rest) \<and>
         robots w' = [r])"
    if s: "startGame w rs = Some w'"
    using startGame_fields(2-8)[OF s] by (simp add: startGame_fields(1)[OF s])
  have b: "score (gs w') = 0 \<and> wave (gs w') = 1 \<and> health (gs w') = maxHealth (gs w) \<and>
      maxHealth (gs w') = maxHealth (gs w) \<and> combo (gs w') = 1 \<and> kills (gs w') = 0 \<and>
      isRunning (gs w') \<and> isPaused (gs w') = isPaused (gs w) \<and>
      particles w' = [] \<and> bullets w' = [] \<and>
      spawnTimer w' = 0 \<and> spawnInterval w' = 2 \<and> camera w' = \<lparr>vx = 0, vy = 2, vz = 0\<rparr> \<and>
      (\<exists>r rest. Robot_new_basic None (gs w') \<lparr>vx = 0, vy = 2, vz = 0\<rparr> rs = Some (r, rest) \<and>
         robots w' = [r])"
    if s: "startGame_basic w rs = Some w'"
    using startGame_basic_fields(2-8)[OF s] by (simp add: startGame_basic_fields(1)[OF s])
  from a b startGame_returns[of w] show ?thesis by blast
qed

lemma startGame_paused:
  "startGame paused_world math_rolls
     = Some (started_world\<lparr>gs := (gs started_world)\<lparr>isPaused := True\<rparr>\<rparr>)"
proof -
  have "Robot_new None ((gs running_world)\<lparr>isPaused := True\<rparr>) \<lparr>vx = 0, vy = 2, vz = 0\<rparr> 0 0 math_rolls
          = Some (math_robot, [])"
    using Robot_new_math_rolls
    by (simp add: Robot_new_def running_world_def initial_world_def)
  then show ?thesis
    by (simp add: startGame_def Let_def started_world_def paused_world_def sample_world_def
        running_world_def initial_world_def)
qed

theorem startGame_resets_witness:
  "startGame initial_world math_rolls = Some started_world \<and>
   startGame_basic initial_world_basic basic_rolls = Some started_world_basic \<and>
   startGame paused_world math_rolls
     = Some (started_world\<lparr>gs := (gs started_world)\<lparr>isPaused := True\<rparr>\<rparr>) \<and>
   score (gs paused_world) = 600 \<and> kills (gs paused_world) = 3 \<and> combo (gs paused_world) = 4 \<and>
   health (gs paused_world) = 64 \<and> length (robots paused_world) = 4 \<and>
   score (gs (started_world\<lparr>gs := (gs started_world)\<lparr>isPaused := True\<rparr>\<rparr>)) = 0 \<and>
   kills (gs (started_world\<lparr>gs := (gs started_world)\<lparr>isPaused := True\<rparr>\<rparr>)) = 0 \<and>
   combo (gs (started_world\<lparr>gs := (gs started_world)\<lparr>isPaused := True\<rparr>\<rparr>)) = 1 \<and>
   health (gs (started_world\<lparr>gs := (gs started_world)\<lparr>isPaused := True\<rparr>\<rparr>)) = 100 \<and>
   spawnTimer (started_world\<lparr>gs := (gs started_world)\<lparr>isPaused := True\<rparr>\<rparr>) = 0 \<and>
   health (gs started_world_basic) = 150 \<and> isRunning (gs started_world) \<and>
   spawnInterval started_world = 2 \<and> pickups started_world = []"
proof -
  have h1: "startGame initial_world math_rolls = Some started_world"
    by (rule startGame_initial)
  have h2: "startGame_basic initial_world_basic basic_rolls = Some started_world_basic"
    by (rule startGame_basic_initial)
  have h3: "startGame paused_world math_rolls
     = Some (started_world\<lparr>gs := (gs started_world)\<lparr>isPaused := True\<rparr>\<rparr>)"
    by (rule startGame_paused)
  have v: "score (gs paused_world) = 600" "kills (gs paused_world) = 3"
    "combo (gs paused_world) = 4" "health (gs paused_world) = 64"
    "length (robots paused_world) = 4" "maxHealth (gs paused_world) = 100"
    by (simp_all add: paused_world_def sample_world_def running_world_def initial_world_def)
  have m: "maxHealth (gs initial_world) = 100" "maxHealth (gs initial_world_basic) = 150"
    by (simp_all add: initial_world_basic_def initial_world_def)
  note t1 = startGame_resets[where w=initial_world and rs=math_rolls and w'=started_world]
  note t2 = startGame_resets[where w=initial_world_basic and rs=basic_rolls
      and w'=started_world_basic]
  note t3 = startGame_resets[where w=paused_world and rs=math_rolls
      and w'="started_world\<lparr>gs := (gs started_world)\<lparr>isPaused := True\<rparr>\<rparr>"]
  from t1[THEN conjunct1] h1 have c1: "isRunning (gs started_world) \<and>
      spawnInterval started_world = 2 \<and> pickups started_world = []"
    by simp
  from t2[THEN conjunct2, THEN conjunct1] h2 m have c2: "health (gs started_world_basic) = 150"
    by simp
  from t3[THEN conjunct1] h3 v have c3:
   "score (gs (started_world\<lparr>gs := (gs started_world)\<lparr>isPaused := True\<rparr>\<rparr>)) = 0 \<and>
    kills (gs (started_world\<lparr>gs := (gs started_world)\<lparr>isPaused := True\<rparr>\<rparr>)) = 0 \<and>
    combo (gs (started_world\<lparr>gs := (gs started_world)\<lparr>isPaused := True\<rparr>\<rparr>)) = 1 \<and>
    health (gs (started_world\<lparr>gs := (gs started_world)\<lparr>isPaused := True\<rparr>\<rparr>)) = 100 \<and>
    spawnTimer (started_world\<lparr>gs := (gs started_world)\<lparr>isPaused := True\<rparr>\<rparr>) = 0"
    by simp
  from h1 h2 h3 v c1 c2 c3 show ?thesis by simp
qed

text \<open>
  The claim as stated fails: after \<open>startGame\<close> the enemy collection holds the first
  enemy instead of being empty, and a game that was paused is still paused.
\<close>

theorem startGame_counterexample:
  "isPaused (gs paused_world) \<and>
   startGame paused_world math_rolls
     = Some (started_world\<lparr>gs := (gs started_world)\<lparr>isPaused := True\<rparr>\<rparr>) \<and>
   isPaused (gs (started_world\<lparr>gs := (gs started_world)\<lparr>isPaused := True\<rparr>\<rparr>)) \<and>
   robots (started_world\<lparr>gs := (gs started_world)\<lparr>isPaused := True\<rparr>\<rparr>) = [math_robot] \<and>
   robots (started_world\<lparr>gs := (gs started_world)\<lparr>isPaused := True\<rparr>\<rparr>) \<noteq> [] \<and>
   startGame initial_world math_rolls = Some started_world \<and>
   robots started_world \<noteq> []"
  by (simp add: startGame_paused startGame_initial)
    (simp add: started_world_def paused_world_def)

end
